theory Spec2Isabelle
  imports Complex_Main "HOL-Library.AList" "HOL-Library.Sublist" "HOL-Library.Multiset"
begin

section \<open>Decoded JSON values and Python dictionaries\<close>

text \<open>
  The gazette API answers with a JSON document; \<^verbatim>\<open>response.json()\<close> decodes it into nested
  Python dicts, lists and scalars. A dict keeps its keys in insertion order, so it is an
  association list here. Strings are byte lists holding the UTF-8 encoding of the Python
  string; equality, \<^verbatim>\<open>startswith\<close> and the substring test \<^verbatim>\<open>in\<close> agree on the two views.
\<close>

datatype json =
    JNull
  | JBool bool
  | JInt int
  | JFloat real
  | JStr string
  | JArr "json list"
  | JObj "(string \<times> json) list"

type_synonym pydict = "(string \<times> json) list"

text \<open>Truth value of a Python object, as \<^verbatim>\<open>or\<close>, \<^verbatim>\<open>if\<close> and \<^verbatim>\<open>not\<close> use it.\<close>

fun truthy :: "json \<Rightarrow> bool" where
  "truthy JNull = False"
| "truthy (JBool b) = b"
| "truthy (JInt i) = (i \<noteq> 0)"
| "truthy (JFloat r) = (r \<noteq> 0)"
| "truthy (JStr s) = (s \<noteq> [])"
| "truthy (JArr xs) = (xs \<noteq> [])"
| "truthy (JObj kvs) = (kvs \<noteq> [])"

definition py_or :: "json \<Rightarrow> json \<Rightarrow> json" where
  "py_or a b = (if truthy a then a else b)"

text \<open>\<^verbatim>\<open>d.get(k)\<close> is \<^verbatim>\<open>None\<close> for an absent key, \<^verbatim>\<open>d.get(k, default)\<close> the default.\<close>

definition dict_get :: "pydict \<Rightarrow> string \<Rightarrow> json" where
  "dict_get d k = (case map_of d k of None \<Rightarrow> JNull | Some v \<Rightarrow> v)"

definition dict_get_default :: "pydict \<Rightarrow> string \<Rightarrow> json \<Rightarrow> json" where
  "dict_get_default d k dflt = (case map_of d k of None \<Rightarrow> dflt | Some v \<Rightarrow> v)"

definition dict_keys :: "('k \<times> 'v) list \<Rightarrow> 'k list" where
  "dict_keys d = map fst d"

definition startswith :: "string \<Rightarrow> string \<Rightarrow> bool" where
  "startswith s p = prefix p s"

text \<open>
  The Python runtime functions the program calls on strings and dates. They are not part of
  the repository, so the model takes them as a parameter: \<^verbatim>\<open>str.lower\<close>, \<^verbatim>\<open>str.title\<close>,
  \<^verbatim>\<open>str()\<close> of a value that is not a string, \<^verbatim>\<open>strptime(fecha, "%Y%m%d")\<close>, which gives the
  year, month and day or is \<open>None\<close> where it raises \<^verbatim>\<open>ValueError\<close>, and \<^verbatim>\<open>strftime(fmt)\<close> of
  the date it gave.
\<close>

record runtime =
  str_lower :: "string \<Rightarrow> string"
  str_title :: "string \<Rightarrow> string"
  str_of :: "json \<Rightarrow> string"
  strptime :: "string \<Rightarrow> (nat \<times> nat \<times> nat) option"
  strftime :: "string \<Rightarrow> nat \<times> nat \<times> nat \<Rightarrow> string"

section \<open>The three tree scanners\<close>

subsection \<open>\<^verbatim>\<open>_extract_sumario_entries\<close> (app.py)\<close>

text \<open>\<^verbatim>\<open>keys_lower = {k.lower(): k for k in x.keys()}\<close>: a later key with the same lowercase
  form replaces the stored original key and keeps the position of the first.\<close>

definition keys_lower :: "runtime \<Rightarrow> pydict \<Rightarrow> (string \<times> string) list" where
  "keys_lower rt x = fold (\<lambda>k acc. AList.update (str_lower rt k) k acc) (dict_keys x) []"

definition has_url :: "runtime \<Rightarrow> pydict \<Rightarrow> bool" where
  "has_url rt x = list_ex (\<lambda>k. startswith k ''url'') (dict_keys (keys_lower rt x))"

definition is_entry :: "runtime \<Rightarrow> pydict \<Rightarrow> bool" where
  "is_entry rt x =
     (has_url rt x \<and>
      (''titulo'' \<in> set (dict_keys (keys_lower rt x)) \<or>
       ''title'' \<in> set (dict_keys (keys_lower rt x)) \<or>
       ''nombre'' \<in> set (dict_keys (keys_lower rt x))))"

text \<open>\<^verbatim>\<open>x.get(keys_lower.get(name))\<close>: \<^verbatim>\<open>x.get(None)\<close> is \<^verbatim>\<open>None\<close>, the keys of \<^verbatim>\<open>x\<close> being strings.\<close>

definition get_by_lower :: "runtime \<Rightarrow> pydict \<Rightarrow> string \<Rightarrow> json" where
  "get_by_lower rt x name =
     (case map_of (keys_lower rt x) name of None \<Rightarrow> JNull | Some orig \<Rightarrow> dict_get x orig)"

definition sin_titulo_paren :: string where
  "sin_titulo_paren = ''(sin t'' @ [CHR 0xC3, CHR 0xAD] @ ''tulo)''"

definition entry_urls :: "runtime \<Rightarrow> pydict \<Rightarrow> pydict" where
  "entry_urls rt x =
     fold (\<lambda>(kl, orig) urls.
             (case dict_get x orig of
                JStr s \<Rightarrow> (if startswith kl ''url'' then AList.update kl (JStr s) urls else urls)
              | _ \<Rightarrow> urls))
          (keys_lower rt x) []"

definition make_entry :: "runtime \<Rightarrow> pydict \<Rightarrow> json" where
  "make_entry rt x =
     (let titulo = py_or (py_or (get_by_lower rt x ''titulo'') (get_by_lower rt x ''title''))
                         (get_by_lower rt x ''nombre'')
      in JObj [(''titulo'', py_or titulo (JStr sin_titulo_paren)),
               (''urls'', JObj (entry_urls rt x))])"

text \<open>The inner function \<^verbatim>\<open>rec\<close>, with the list \<^verbatim>\<open>out\<close> it appends to passed through. The two
  loops over \<^verbatim>\<open>x.values()\<close> and over the items of a list keep calling \<^verbatim>\<open>rec\<close>, which returns
  at once when \<^verbatim>\<open>len(out) >= limit\<close>.\<close>

fun rec :: "runtime \<Rightarrow> int \<Rightarrow> json \<Rightarrow> json list \<Rightarrow> json list"
  and rec_values :: "runtime \<Rightarrow> int \<Rightarrow> pydict \<Rightarrow> json list \<Rightarrow> json list"
  and rec_items :: "runtime \<Rightarrow> int \<Rightarrow> json list \<Rightarrow> json list \<Rightarrow> json list"
where
  "rec rt limit x out =
     (if int (length out) \<ge> limit then out
      else (case x of
              JObj kvs \<Rightarrow>
                rec_values rt limit kvs (if is_entry rt kvs then out @ [make_entry rt kvs] else out)
            | JArr xs \<Rightarrow> rec_items rt limit xs out
            | _ \<Rightarrow> out))"
| "rec_values rt limit [] out = out"
| "rec_values rt limit (kv # kvs) out = rec_values rt limit kvs (rec rt limit (snd kv) out)"
| "rec_items rt limit [] out = out"
| "rec_items rt limit (i # is) out = rec_items rt limit is (rec rt limit i out)"

definition extract_sumario_entries :: "runtime \<Rightarrow> json \<Rightarrow> int \<Rightarrow> json list" where
  "extract_sumario_entries rt sumario_json limit = rec rt limit sumario_json []"

subsection \<open>\<^verbatim>\<open>extraer_documentos\<close> (boe_digest.py) and \<^verbatim>\<open>extraer_documentos_sumario\<close> (Chat page)\<close>

text \<open>Both test \<^verbatim>\<open>"titulo" in obj and any(k.startswith("url") for k in obj.keys())\<close> on the keys as
  they are written, without lowering them.\<close>

definition es_documento :: "pydict \<Rightarrow> bool" where
  "es_documento obj =
     (''titulo'' \<in> set (dict_keys obj) \<and> list_ex (\<lambda>k. startswith k ''url'') (dict_keys obj))"

definition sin_titulo :: string where
  "sin_titulo = ''Sin t'' @ [CHR 0xC3, CHR 0xAD] @ ''tulo''"

definition doc_digest :: "pydict \<Rightarrow> pydict" where
  "doc_digest obj =
     [(''titulo'', dict_get_default obj ''titulo'' (JStr sin_titulo)),
      (''seccion'', dict_get_default obj ''seccion'' (JStr [])),
      (''departamento'', dict_get_default obj ''departamento'' (JStr [])),
      (''rango'', dict_get_default obj ''rango'' (JStr [])),
      (''url_pdf'', dict_get_default obj ''urlPdf'' (JStr [])),
      (''url_html'', dict_get_default obj ''urlHtml'' (JStr [])),
      (''url_xml'', dict_get_default obj ''urlXml'' (JStr []))]"

definition doc_sumario :: "pydict \<Rightarrow> pydict" where
  "doc_sumario obj =
     [(''titulo'', dict_get_default obj ''titulo'' (JStr sin_titulo)),
      (''seccion'', dict_get_default obj ''seccion'' (JStr [])),
      (''departamento'', dict_get_default obj ''departamento'' (JStr [])),
      (''url_pdf'', dict_get_default obj ''urlPdf'' (JStr [])),
      (''url_html'', dict_get_default obj ''urlHtml'' (JStr []))]"

text \<open>The inner function \<^verbatim>\<open>buscar_recursivo\<close> is written twice in the source, with the same
  traversal and a different dict built at a match; \<open>doc\<close> is that dict, \<open>documentos\<close> the
  list the function appends to.\<close>

fun buscar_recursivo :: "(pydict \<Rightarrow> pydict) \<Rightarrow> json \<Rightarrow> pydict list \<Rightarrow> pydict list"
  and buscar_valores :: "(pydict \<Rightarrow> pydict) \<Rightarrow> pydict \<Rightarrow> pydict list \<Rightarrow> pydict list"
  and buscar_items :: "(pydict \<Rightarrow> pydict) \<Rightarrow> json list \<Rightarrow> pydict list \<Rightarrow> pydict list"
where
  "buscar_recursivo doc (JObj obj) documentos =
     buscar_valores doc obj (if es_documento obj then documentos @ [doc obj] else documentos)"
| "buscar_recursivo doc (JArr xs) documentos = buscar_items doc xs documentos"
| "buscar_recursivo doc JNull documentos = documentos"
| "buscar_recursivo doc (JBool b) documentos = documentos"
| "buscar_recursivo doc (JInt i) documentos = documentos"
| "buscar_recursivo doc (JFloat r) documentos = documentos"
| "buscar_recursivo doc (JStr s) documentos = documentos"
| "buscar_valores doc [] documentos = documentos"
| "buscar_valores doc (kv # kvs) documentos =
     buscar_valores doc kvs (buscar_recursivo doc (snd kv) documentos)"
| "buscar_items doc [] documentos = documentos"
| "buscar_items doc (i # is) documentos = buscar_items doc is (buscar_recursivo doc i documentos)"

definition extraer_documentos :: "json \<Rightarrow> pydict list" where
  "extraer_documentos sumario_json = buscar_recursivo doc_digest sumario_json []"

text \<open>The slice \<^verbatim>\<open>xs[:limit]\<close>: a negative bound counts from the end.\<close>

definition slice_to :: "'a list \<Rightarrow> int \<Rightarrow> 'a list" where
  "slice_to xs limit =
     (if 0 \<le> limit then take (nat limit) xs else take (length xs - nat (- limit)) xs)"

definition extraer_documentos_sumario :: "json \<Rightarrow> int \<Rightarrow> pydict list" where
  "extraer_documentos_sumario sumario_json limit =
     slice_to (buscar_recursivo doc_sumario sumario_json []) limit"

subsection \<open>The walk the specification describes\<close>

text \<open>Depth first, a mapping before its values, the values of a mapping in insertion order,
  the elements of a sequence in order: the mapping nodes of a tree in encounter order.\<close>

fun mapping_nodes :: "json \<Rightarrow> pydict list"
  and mapping_nodes_values :: "pydict \<Rightarrow> pydict list"
  and mapping_nodes_items :: "json list \<Rightarrow> pydict list"
where
  "mapping_nodes (JObj obj) = obj # mapping_nodes_values obj"
| "mapping_nodes (JArr xs) = mapping_nodes_items xs"
| "mapping_nodes JNull = []"
| "mapping_nodes (JBool b) = []"
| "mapping_nodes (JInt i) = []"
| "mapping_nodes (JFloat r) = []"
| "mapping_nodes (JStr s) = []"
| "mapping_nodes_values [] = []"
| "mapping_nodes_values (kv # kvs) = mapping_nodes (snd kv) @ mapping_nodes_values kvs"
| "mapping_nodes_items [] = []"
| "mapping_nodes_items (i # is) = mapping_nodes i @ mapping_nodes_items is"

text \<open>The match rule in the specification's words: a key case-insensitively equal to
  \<^verbatim>\<open>titulo\<close>, \<^verbatim>\<open>title\<close> or \<^verbatim>\<open>nombre\<close>, and a key whose lowercased form starts with \<^verbatim>\<open>url\<close>.\<close>

definition title_like :: "runtime \<Rightarrow> string \<Rightarrow> bool" where
  "title_like rt k = (str_lower rt k \<in> {''titulo'', ''title'', ''nombre''})"

definition url_like :: "runtime \<Rightarrow> string \<Rightarrow> bool" where
  "url_like rt k = prefix ''url'' (str_lower rt k)"

definition qualifies :: "runtime \<Rightarrow> pydict \<Rightarrow> bool" where
  "qualifies rt x =
     (list_ex (title_like rt) (dict_keys x) \<and> list_ex (url_like rt) (dict_keys x))"

text \<open>An instance of the runtime for concrete runs: ASCII capitals are lowered and every other
  byte is kept, as \<^verbatim>\<open>str.lower\<close> does on ASCII text; the other functions are placeholders.\<close>

definition ascii_lower_char :: "char \<Rightarrow> char" where
  "ascii_lower_char c =
     (if 65 \<le> (of_char c :: nat) \<and> (of_char c :: nat) \<le> 90
      then char_of ((of_char c :: nat) + 32) else c)"

definition ascii_runtime :: runtime where
  "ascii_runtime =
     \<lparr> str_lower = map ascii_lower_char,
       str_title = (\<lambda>s. s),
       str_of = (\<lambda>v. []),
       strptime = (\<lambda>fecha. if fecha = ''20240101'' then Some (2024, 1, 1) else None),
       strftime = (\<lambda>fmt fecha_obj.
                     if fmt = ''%d/%m/%Y'' then ''01/01/2024'' else ''01 de January de 2024'') \<rparr>"

text \<open>The summary of the specification's end-to-end scenario.\<close>

definition sumario_ejemplo :: json where
  "sumario_ejemplo =
     JObj [(''resultados'',
        JArr [JObj [(''titulo'', JStr ''Orden de empleo juvenil''), (''seccion'', JStr ''II''),
                    (''urlPdf'', JStr ''http://x/1.pdf'')],
              JObj [(''titulo'', JStr ''Ley de vivienda social''),
                    (''departamento'', JStr ''Fomento''),
                    (''urlHtml'', JStr ''http://x/2.html'')]])]"

section \<open>The topic classifier\<close>

text \<open>The module constant \<^verbatim>\<open>TEMAS_BOE\<close>: a dict literal, so the topics are in the order they
  are written and the keys are distinct.\<close>

definition TEMAS_BOE :: "(string \<times> string list) list" where
  "TEMAS_BOE =
     [(''econom'' @ [CHR 0xC3, CHR 0xAD] @ ''a'',
        [''impuesto'', ''fiscal'', ''tribut'', ''econ'' @ [CHR 0xC3, CHR 0xB3] @ ''m'',
         ''financ'', ''banco'', ''comercio'', ''empresa'']),
      (''empleo'',
        [''laboral'', ''trabajo'', ''empleo'', ''salarial'', ''pension'',
         ''seguridad social'', ''contrato'']),
      (''educaci'' @ [CHR 0xC3, CHR 0xB3] @ ''n'',
        [''educaci'' @ [CHR 0xC3, CHR 0xB3] @ ''n'', ''educativo'', ''universidad'',
         ''escolar'', ''formaci'' @ [CHR 0xC3, CHR 0xB3] @ ''n'', ''docente'']),
      (''sanidad'',
        [''salud'', ''sanit'', ''m'' @ [CHR 0xC3, CHR 0xA9] @ ''dic'', ''hospital'',
         ''farmac'', ''medicamento'', ''epidem'']),
      (''justicia'',
        [''penal'', ''procesal'', ''judicial'', ''tribunal'', ''sentencia'', ''delito'',
         ''c'' @ [CHR 0xC3, CHR 0xB3] @ ''digo'']),
      (''medio_ambiente'',
        [''ambient'', ''ecolog'', ''clima'', ''sostenib'', ''residuo'', ''contamin'',
         ''energ'']),
      (''vivienda'',
        [''vivienda'', ''alquiler'', ''inmobiliar'', ''hipoteca'', ''arrendamiento'',
         ''edificaci'' @ [CHR 0xC3, CHR 0xB3] @ ''n'']),
      (''transporte'',
        [''transport'', ''tr'' @ [CHR 0xC3, CHR 0xA1] @ ''fico'',
         ''circulaci'' @ [CHR 0xC3, CHR 0xB3] @ ''n'',
         ''veh'' @ [CHR 0xC3, CHR 0xAD] @ ''culo'', ''carretera'', ''ferrocarril'']),
      (''administraci'' @ [CHR 0xC3, CHR 0xB3] @ ''n'',
        [''administr'', ''p'' @ [CHR 0xC3, CHR 0xBA] @ ''blico'', ''funcionario'',
         ''oposici'' @ [CHR 0xC3, CHR 0xB3] @ ''n'', ''concurso'', ''nombramiento''])]"

datatype error = KeyError string | TypeError | ValueError

text \<open>\<^verbatim>\<open>d[k]\<close> raises \<^verbatim>\<open>KeyError\<close> for an absent key.\<close>

definition dict_index :: "pydict \<Rightarrow> string \<Rightarrow> error + json" where
  "dict_index d k = (case map_of d k of None \<Rightarrow> Inl (KeyError k) | Some v \<Rightarrow> Inr v)"

text \<open>A value interpolated in an f-string: a string as it is, any other value through \<^verbatim>\<open>str()\<close>.\<close>

definition format_value :: "runtime \<Rightarrow> json \<Rightarrow> string" where
  "format_value rt v = (case v of JStr s \<Rightarrow> s | _ \<Rightarrow> str_of rt v)"

text \<open>The substring test \<^verbatim>\<open>keyword in texto\<close>.\<close>

fun py_in :: "string \<Rightarrow> string \<Rightarrow> bool" where
  "py_in keyword [] = (keyword = [])"
| "py_in keyword (c # cs) = (prefix keyword (c # cs) \<or> py_in keyword cs)"

text \<open>\<^verbatim>\<open>f"{doc['titulo']} {doc['seccion']} {doc['departamento']}".lower()\<close>, the three
  lookups in that order.\<close>

definition texto_busqueda :: "runtime \<Rightarrow> pydict \<Rightarrow> error + string" where
  "texto_busqueda rt doc =
     (case dict_index doc ''titulo'' of Inl e \<Rightarrow> Inl e | Inr titulo \<Rightarrow>
       (case dict_index doc ''seccion'' of Inl e \<Rightarrow> Inl e | Inr seccion \<Rightarrow>
         (case dict_index doc ''departamento'' of Inl e \<Rightarrow> Inl e | Inr departamento \<Rightarrow>
            Inr (str_lower rt (format_value rt titulo @ '' '' @ format_value rt seccion @ '' '' @
                               format_value rt departamento)))))"

text \<open>\<^verbatim>\<open>any(keyword in texto_busqueda for keyword in keywords)\<close>.\<close>

definition coincide :: "string list \<Rightarrow> string \<Rightarrow> bool" where
  "coincide keywords texto = list_ex (\<lambda>keyword. py_in keyword texto) keywords"

text \<open>The inner loop over \<^verbatim>\<open>temas_activos.items()\<close> with its \<^verbatim>\<open>break\<close>: the first topic with a
  matching keyword, or \<open>None\<close> when the loop ends with \<^verbatim>\<open>clasificado\<close> still false.\<close>

fun buscar_tema :: "(string \<times> string list) list \<Rightarrow> string \<Rightarrow> string option" where
  "buscar_tema [] texto = None"
| "buscar_tema ((tema, keywords) # resto) texto =
     (if coincide keywords texto then Some tema else buscar_tema resto texto)"

text \<open>\<^verbatim>\<open>if temas_filtro:\<close> is false for \<^verbatim>\<open>None\<close> and for the empty list.\<close>

definition temas_activos ::
  "(string \<times> string list) list \<Rightarrow> string list option \<Rightarrow> (string \<times> string list) list" where
  "temas_activos tabla temas_filtro =
     (case temas_filtro of
        None \<Rightarrow> tabla
      | Some filtro \<Rightarrow>
          (if filtro = [] then tabla else filter (\<lambda>(k, v). k \<in> set filtro) tabla))"

text \<open>\<^verbatim>\<open>clasificacion[tema].append(doc)\<close>. Every topic the loop can name is a key of
  \<^verbatim>\<open>clasificacion\<close>, which starts with all the topics of the table and \<^verbatim>\<open>otros\<close>.\<close>

definition dict_append :: "string \<Rightarrow> 'a \<Rightarrow> (string \<times> 'a list) list \<Rightarrow> (string \<times> 'a list) list" where
  "dict_append tema doc clasificacion =
     map (\<lambda>(k, v). if k = tema then (k, v @ [doc]) else (k, v)) clasificacion"

definition clasificacion_inicial :: "(string \<times> string list) list \<Rightarrow> (string \<times> pydict list) list" where
  "clasificacion_inicial tabla = AList.update ''otros'' [] (map (\<lambda>(tema, kws). (tema, [])) tabla)"

text \<open>The bucket one document goes to.\<close>

definition asignar :: "runtime \<Rightarrow> (string \<times> string list) list \<Rightarrow> pydict \<Rightarrow> error + string" where
  "asignar rt activos doc =
     (case texto_busqueda rt doc of
        Inl e \<Rightarrow> Inl e
      | Inr texto \<Rightarrow>
          Inr (case buscar_tema activos texto of Some tema \<Rightarrow> tema | None \<Rightarrow> ''otros''))"

text \<open>The loop \<^verbatim>\<open>for doc in documentos\<close>, with the dict it fills passed through.\<close>

fun clasificar_docs ::
  "runtime \<Rightarrow> (string \<times> string list) list \<Rightarrow> pydict list \<Rightarrow> (string \<times> pydict list) list
     \<Rightarrow> error + (string \<times> pydict list) list" where
  "clasificar_docs rt activos [] clasificacion = Inr clasificacion"
| "clasificar_docs rt activos (doc # documentos) clasificacion =
     (case asignar rt activos doc of
        Inl e \<Rightarrow> Inl e
      | Inr tema \<Rightarrow> clasificar_docs rt activos documentos (dict_append tema doc clasificacion))"

text \<open>\<^verbatim>\<open>clasificar_por_tema\<close> over a table; the last line drops the empty categories.\<close>

definition clasificar ::
  "runtime \<Rightarrow> (string \<times> string list) list \<Rightarrow> pydict list \<Rightarrow> string list option
     \<Rightarrow> error + (string \<times> pydict list) list" where
  "clasificar rt tabla documentos temas_filtro =
     (case clasificar_docs rt (temas_activos tabla temas_filtro) documentos
             (clasificacion_inicial tabla) of
        Inl e \<Rightarrow> Inl e
      | Inr clasificacion \<Rightarrow> Inr (filter (\<lambda>(k, v). v \<noteq> []) clasificacion))"

definition clasificar_por_tema ::
  "runtime \<Rightarrow> pydict list \<Rightarrow> string list option \<Rightarrow> error + (string \<times> pydict list) list" where
  "clasificar_por_tema rt documentos temas_filtro = clasificar rt TEMAS_BOE documentos temas_filtro"

text \<open>A document the classifier can read: it has the three keys the haystack is built from.
  \<^verbatim>\<open>extraer_documentos\<close> builds every document with them, storing the empty string for a
  field its node lacks.\<close>

definition doc_completo :: "pydict \<Rightarrow> bool" where
  "doc_completo doc =
     (''titulo'' \<in> set (dict_keys doc) \<and> ''seccion'' \<in> set (dict_keys doc) \<and>
      ''departamento'' \<in> set (dict_keys doc))"

text \<open>The order the categories are created in: the topics of the table, then \<^verbatim>\<open>otros\<close>.\<close>

definition orden_categorias :: "string list" where
  "orden_categorias = map fst TEMAS_BOE @ [''otros'']"

text \<open>The documents of a list that go to category \<open>k\<close>, in the order of the list.\<close>

definition bucket :: "runtime \<Rightarrow> string list option \<Rightarrow> pydict list \<Rightarrow> string \<Rightarrow> pydict list" where
  "bucket rt filtro docs k = filter (\<lambda>d. asignar rt (temas_activos TEMAS_BOE filtro) d = Inr k) docs"

text \<open>A document whose title has keywords of two topics, \<^verbatim>\<open>empleo\<close> (\<^verbatim>\<open>contrato\<close>) and
  \<^verbatim>\<open>vivienda\<close> (\<^verbatim>\<open>alquiler\<close>, \<^verbatim>\<open>vivienda\<close>).\<close>

definition doc_dos_temas :: pydict where
  "doc_dos_temas =
     doc_digest [(''titulo'', JStr ''Contrato de alquiler de vivienda''),
                 (''urlPdf'', JStr ''http://x/3.pdf'')]"

text \<open>A topic of the table is active when no filter is given, when the filter is empty, or
  when the filter names it.\<close>

definition tema_activo :: "string list option \<Rightarrow> string \<Rightarrow> bool" where
  "tema_activo temas_filtro tema =
     (case temas_filtro of None \<Rightarrow> True | Some filtro \<Rightarrow> filtro = [] \<or> tema \<in> set filtro)"

section \<open>The digest renderer\<close>

text \<open>The template of the page head, up to the place of the date.\<close>

definition cabecera_inicio :: string where
  "cabecera_inicio =
     ''\<newline>'' @
     ''    <!DOCTYPE html>\<newline>'' @
     ''    <html>\<newline>'' @
     ''    <head>\<newline>'' @
     ''        <meta charset='' @ [CHR 0x22] @ ''UTF-8'' @ [CHR 0x22] @ ''>\<newline>'' @
     ''        <style>\<newline>'' @
     ''            body {\<newline>'' @
     ''                font-family: Arial, sans-serif;\<newline>'' @
     ''                max-width: 800px;\<newline>'' @
     ''                margin: 0 auto;\<newline>'' @
     ''                padding: 20px;\<newline>'' @
     ''                background-color: #f5f5f5;\<newline>'' @
     ''            }\<newline>'' @
     ''            .header {\<newline>'' @
     ''                background-color: #1e3a8a;\<newline>'' @
     ''                color: white;\<newline>'' @
     ''                padding: 20px;\<newline>'' @
     ''                border-radius: 8px;\<newline>'' @
     ''                margin-bottom: 20px;\<newline>'' @
     ''            }\<newline>'' @
     ''            .tema {\<newline>'' @
     ''                background-color: white;\<newline>'' @
     ''                padding: 15px;\<newline>'' @
     ''                margin-bottom: 15px;\<newline>'' @
     ''                border-radius: 8px;\<newline>'' @
     ''                border-left: 4px solid #1e3a8a;\<newline>'' @
     ''            }\<newline>'' @
     ''            .tema h2 {\<newline>'' @
     ''                color: #1e3a8a;\<newline>'' @
     ''                margin-top: 0;\<newline>'' @
     ''                text-transform: capitalize;\<newline>'' @
     ''            }\<newline>'' @
     ''            .documento {\<newline>'' @
     ''                margin-bottom: 15px;\<newline>'' @
     ''                padding: 10px;\<newline>'' @
     ''                background-color: #f9fafb;\<newline>'' @
     ''                border-radius: 4px;\<newline>'' @
     ''            }\<newline>'' @
     ''            .documento h3 {\<newline>'' @
     ''                margin: 0 0 8px 0;\<newline>'' @
     ''                font-size: 16px;\<newline>'' @
     ''                color: #1f2937;\<newline>'' @
     ''            }\<newline>'' @
     ''            .metadatos {\<newline>'' @
     ''                color: #6b7280;\<newline>'' @
     ''                font-size: 12px;\<newline>'' @
     ''                margin-bottom: 8px;\<newline>'' @
     ''            }\<newline>'' @
     ''            .enlaces a {\<newline>'' @
     ''                display: inline-block;\<newline>'' @
     ''                margin-right: 10px;\<newline>'' @
     ''                padding: 4px 12px;\<newline>'' @
     ''                background-color: #3b82f6;\<newline>'' @
     ''                color: white;\<newline>'' @
     ''                text-decoration: none;\<newline>'' @
     ''                border-radius: 4px;\<newline>'' @
     ''                font-size: 12px;\<newline>'' @
     ''            }\<newline>'' @
     ''            .enlaces a:hover {\<newline>'' @
     ''                background-color: #2563eb;\<newline>'' @
     ''            }\<newline>'' @
     ''            .contador {\<newline>'' @
     ''                font-size: 14px;\<newline>'' @
     ''                color: #6b7280;\<newline>'' @
     ''                margin-bottom: 10px;\<newline>'' @
     ''            }\<newline>'' @
     ''        </style>\<newline>'' @
     ''    </head>\<newline>'' @
     ''    <body>\<newline>'' @
     ''        <div class='' @ [CHR 0x22] @ ''header'' @ [CHR 0x22] @ ''>\<newline>'' @
     ''            <h1>'' @ [CHR 0xF0, CHR 0x9F, CHR 0x93, CHR 0xB0] @ '' Resumen BOE - ''"

definition cabecera_fin :: string where
  "cabecera_fin =
     ''</h1>\<newline>'' @
     ''            <p>Resumen inteligente del Bolet'' @ [CHR 0xC3, CHR 0xAD] @ ''n Oficial del Estado</p>\<newline>'' @
     ''        </div>\<newline>'' @
     ''    ''"

definition contador_inicio :: string where
  "contador_inicio =
     ''<p class='' @ [CHR 0x22] @ ''contador'' @ [CHR 0x22] @ ''><strong>Total de documentos:</strong> ''"

definition contador_fin :: string where
  "contador_fin =
     ''</p>''"

definition tema_inicio :: string where
  "tema_inicio =
     ''\<newline>'' @
     ''        <div class='' @ [CHR 0x22] @ ''tema'' @ [CHR 0x22] @ ''>\<newline>'' @
     ''            <h2>'' @ [CHR 0xF0, CHR 0x9F, CHR 0x8F, CHR 0xB7, CHR 0xEF, CHR 0xB8, CHR 0x8F] @ '' ''"

definition tema_medio :: string where
  "tema_medio =
     '' (''"

definition tema_fin :: string where
  "tema_fin =
     '' documentos)</h2>\<newline>'' @
     ''        ''"

definition documento_inicio :: string where
  "documento_inicio =
     ''\<newline>'' @
     ''            <div class='' @ [CHR 0x22] @ ''documento'' @ [CHR 0x22] @ ''>\<newline>'' @
     ''                <h3>''"

definition documento_fin :: string where
  "documento_fin =
     ''</h3>\<newline>'' @
     ''            ''"

definition metadatos_inicio :: string where
  "metadatos_inicio =
     ''\<newline>'' @
     ''                <div class='' @ [CHR 0x22] @ ''metadatos'' @ [CHR 0x22] @ ''>\<newline>'' @
     ''                    ''"

definition metadatos_salto :: string where
  "metadatos_salto =
     ''\<newline>'' @
     ''                    ''"

definition metadatos_fin :: string where
  "metadatos_fin =
     ''\<newline>'' @
     ''                </div>\<newline>'' @
     ''                ''"

definition etiqueta_seccion :: string where
  "etiqueta_seccion =
     ''<strong>Secci'' @ [CHR 0xC3, CHR 0xB3] @ ''n:</strong> ''"

definition etiqueta_dpto :: string where
  "etiqueta_dpto =
     ''<strong>Dpto:</strong> ''"

definition separador :: string where
  "separador =
     '' | ''"

definition enlaces_inicio :: string where
  "enlaces_inicio =
     ''<div class='' @ [CHR 0x22] @ ''enlaces'' @ [CHR 0x22] @ ''>''"

definition enlace_inicio :: string where
  "enlace_inicio =
     ''<a href='' @ [CHR 0x22]"

definition enlace_pdf_fin :: string where
  "enlace_pdf_fin =
     [CHR 0x22] @ '' target='' @ [CHR 0x22] @ ''_blank'' @ [CHR 0x22] @ ''>'' @ [CHR 0xF0, CHR 0x9F, CHR 0x93, CHR 0x84] @ '' PDF</a>''"

definition enlace_html_fin :: string where
  "enlace_html_fin =
     [CHR 0x22] @ '' target='' @ [CHR 0x22] @ ''_blank'' @ [CHR 0x22] @ ''>'' @ [CHR 0xF0, CHR 0x9F, CHR 0x8C, CHR 0x90] @ '' HTML</a>''"

definition documento_cierre :: string where
  "documento_cierre =
     ''</div></div>''"

definition nota_inicio :: string where
  "nota_inicio =
     ''<p class='' @ [CHR 0x22] @ ''metadatos'' @ [CHR 0x22] @ ''>... y ''"

definition nota_fin :: string where
  "nota_fin =
     '' documentos m'' @ [CHR 0xC3, CHR 0xA1] @ ''s en esta categor'' @ [CHR 0xC3, CHR 0xAD] @ ''a</p>''"

definition tema_cierre :: string where
  "tema_cierre =
     ''</div>''"

text \<open>The closing part of the page.\<close>

definition pie :: string where
  "pie =
     ''\<newline>'' @
     ''        <div style='' @ [CHR 0x22] @ ''text-align: center; color: #6b7280; margin-top: 30px; padding-top: 20px; border-top: 1px solid #e5e7eb;'' @ [CHR 0x22] @ ''>\<newline>'' @
     ''            <p>Generado autom'' @ [CHR 0xC3, CHR 0xA1] @ ''ticamente desde la API de Datos Abiertos del BOE</p>\<newline>'' @
     ''        </div>\<newline>'' @
     ''    </body>\<newline>'' @
     ''    </html>\<newline>'' @
     ''    ''"

text \<open>A count interpolated in an f-string: its decimal digits.\<close>

function show_nat :: "nat \<Rightarrow> string" where
  "show_nat n =
     (if n < 10 then [char_of (48 + n)] else show_nat (n div 10) @ [char_of (48 + n mod 10)])"
  by pat_completeness auto
termination
  by (relation "measure (\<lambda>n. n)") auto

text \<open>\<^verbatim>\<open>tema.replace("_", " ").title()\<close>.\<close>

definition tema_display :: "runtime \<Rightarrow> string \<Rightarrow> string" where
  "tema_display rt tema = str_title rt (map (\<lambda>c. if c = CHR ''_'' then CHR '' '' else c) tema)"

definition html_contador :: "nat \<Rightarrow> string" where
  "html_contador total_docs = contador_inicio @ show_nat total_docs @ contador_fin"

definition html_tema :: "runtime \<Rightarrow> string \<Rightarrow> nat \<Rightarrow> string" where
  "html_tema rt tema n = tema_inicio @ tema_display rt tema @ tema_medio @ show_nat n @ tema_fin"

text \<open>The metadata block of a document; each of the three interpolated parts is empty when
  its field is absent or falsy.\<close>

definition html_metadatos :: "runtime \<Rightarrow> pydict \<Rightarrow> string" where
  "html_metadatos rt doc =
     metadatos_inicio @
     (if truthy (dict_get doc ''seccion'')
      then etiqueta_seccion @ format_value rt (dict_get doc ''seccion'') else []) @
     metadatos_salto @
     (if truthy (dict_get doc ''seccion'') \<and> truthy (dict_get doc ''departamento'')
      then separador else []) @
     metadatos_salto @
     (if truthy (dict_get doc ''departamento'')
      then etiqueta_dpto @ format_value rt (dict_get doc ''departamento'') else []) @
     metadatos_fin"

text \<open>What one pass of the loop over \<^verbatim>\<open>documentos[:10]\<close> appends; \<^verbatim>\<open>doc['titulo']\<close> raises
  \<^verbatim>\<open>KeyError\<close> on a document without a title entry.\<close>

definition html_documento :: "runtime \<Rightarrow> pydict \<Rightarrow> error + string" where
  "html_documento rt doc =
     (case dict_index doc ''titulo'' of
        Inl e \<Rightarrow> Inl e
      | Inr titulo \<Rightarrow>
          Inr (documento_inicio @ format_value rt titulo @ documento_fin @
               (if truthy (dict_get doc ''seccion'') \<or> truthy (dict_get doc ''departamento'')
                then html_metadatos rt doc else []) @
               enlaces_inicio @
               (if truthy (dict_get doc ''url_pdf'')
                then enlace_inicio @ format_value rt (dict_get doc ''url_pdf'') @ enlace_pdf_fin
                else []) @
               (if truthy (dict_get doc ''url_html'')
                then enlace_inicio @ format_value rt (dict_get doc ''url_html'') @ enlace_html_fin
                else []) @
               documento_cierre))"

definition html_nota :: "nat \<Rightarrow> string" where
  "html_nota n = nota_inicio @ show_nat n @ nota_fin"

text \<open>The loop over the documents of one topic, with the string \<^verbatim>\<open>html\<close> it appends to.\<close>

fun render_docs :: "runtime \<Rightarrow> pydict list \<Rightarrow> string \<Rightarrow> error + string" where
  "render_docs rt [] html = Inr html"
| "render_docs rt (doc # docs) html =
     (case html_documento rt doc of
        Inl e \<Rightarrow> Inl e
      | Inr s \<Rightarrow> render_docs rt docs (html @ s))"

text \<open>The loop over \<^verbatim>\<open>clasificacion.items()\<close>: an empty topic is skipped, the others show at
  most ten documents and a note when there are more.\<close>

fun render_temas :: "runtime \<Rightarrow> (string \<times> pydict list) list \<Rightarrow> string \<Rightarrow> error + string" where
  "render_temas rt [] html = Inr html"
| "render_temas rt ((tema, documentos) # resto) html =
     (if documentos = [] then render_temas rt resto html
      else
        (case render_docs rt (take 10 documentos)
                (html @ html_tema rt tema (length documentos)) of
           Inl e \<Rightarrow> Inl e
         | Inr html' \<Rightarrow>
             render_temas rt resto
               ((if length documentos > 10
                 then html' @ html_nota (length documentos - 10) else html') @ tema_cierre)))"

definition total_docs :: "(string \<times> pydict list) list \<Rightarrow> nat" where
  "total_docs clasificacion = sum_list (map (\<lambda>(tema, docs). length docs) clasificacion)"

definition generar_resumen_html ::
  "runtime \<Rightarrow> string \<Rightarrow> (string \<times> pydict list) list \<Rightarrow> error + string" where
  "generar_resumen_html rt fecha clasificacion =
     (case strptime rt fecha of
        None \<Rightarrow> Inl ValueError
      | Some fecha_obj \<Rightarrow>
          (case render_temas rt clasificacion
                  (cabecera_inicio @ strftime rt ''%d de %B de %Y'' fecha_obj @ cabecera_fin @
                   html_contador (total_docs clasificacion)) of
             Inl e \<Rightarrow> Inl e
           | Inr html \<Rightarrow> Inr (html @ pie)))"

text \<open>A document the renderer can show: it has a title entry.\<close>

definition tiene_titulo :: "pydict \<Rightarrow> bool" where
  "tiene_titulo doc = (''titulo'' \<in> set (dict_keys doc))"


section \<open>The digest orchestrator\<close>

text \<open>
  The two outside collaborators. An HTTP request either gives the decoded JSON body or raises
  inside the \<^verbatim>\<open>try\<close> block (transport error, status that is not 2xx, body that does not
  decode): the exception's type name and its text. The SMTP transport is handed a message and
  either delivers it or raises, again a type name and a text.
\<close>

datatype http_outcome = Respuesta json | Excepcion string string

record correo =
  para :: string
  asunto :: string
  cuerpo :: string
  servidor :: json
  puerto :: json
  de :: json
  clave :: json

record entorno =
  http_get :: "string \<Rightarrow> http_outcome"
  smtp_enviar :: "correo \<Rightarrow> (string \<times> string) option"

text \<open>What a run does to the outside: the requests it makes and the messages it hands to the
  SMTP transport, in order.\<close>

datatype efecto = Peticion string | Envio correo

definition BOE_BASE :: string where
  "BOE_BASE = ''https://boe.es/datosabiertos/api''"

definition url_sumario :: "string \<Rightarrow> string" where
  "url_sumario fecha = BOE_BASE @ ''/boe/sumario/'' @ fecha"

text \<open>\<^verbatim>\<open>obtener_sumario_boe\<close>: the body, or \<^verbatim>\<open>{"error": f"{type(e).__name__}: {e}"}\<close>.\<close>

definition obtener_sumario_boe :: "entorno \<Rightarrow> string \<Rightarrow> json" where
  "obtener_sumario_boe env fecha =
     (case http_get env (url_sumario fecha) of
        Respuesta body \<Rightarrow> body
      | Excepcion tipo mensaje \<Rightarrow> JObj [(''error'', JStr (tipo @ '': '' @ mensaje))])"

text \<open>The test \<^verbatim>\<open>"error" in sumario\<close>: a key of a dict, an element of a list, a substring of a
  string, and \<^verbatim>\<open>TypeError\<close> on any other value.\<close>

fun contiene_error :: "json \<Rightarrow> error + bool" where
  "contiene_error (JObj obj) = Inr (''error'' \<in> set (dict_keys obj))"
| "contiene_error (JArr xs) = Inr (JStr ''error'' \<in> set xs)"
| "contiene_error (JStr s) = Inr (py_in ''error'' s)"
| "contiene_error JNull = Inl TypeError"
| "contiene_error (JBool b) = Inl TypeError"
| "contiene_error (JInt i) = Inl TypeError"
| "contiene_error (JFloat r) = Inl TypeError"

text \<open>\<^verbatim>\<open>enviar_email_digest\<close>, with the values of its four optional parameters. Everything
  after the credentials test is inside \<^verbatim>\<open>try ... except Exception\<close>.\<close>

definition sin_credenciales :: string where
  "sin_credenciales = ''Se requiere configurar remitente y password''"

definition enviar_email_digest ::
  "entorno \<Rightarrow> string \<Rightarrow> string \<Rightarrow> string \<Rightarrow> json \<Rightarrow> json \<Rightarrow> json \<Rightarrow> json
     \<Rightarrow> json \<times> efecto list" where
  "enviar_email_digest env destinatario asunto_email contenido_html
       smtp_server smtp_port remitente password =
     (if \<not> truthy remitente \<or> \<not> truthy password
      then (JObj [(''error'', JStr sin_credenciales)], [])
      else
        (let mensaje = \<lparr> para = destinatario, asunto = asunto_email, cuerpo = contenido_html,
                          servidor = smtp_server, puerto = smtp_port, de = remitente,
                          clave = password \<rparr>
         in (case smtp_enviar env mensaje of
               None \<Rightarrow>
                 JObj [(''status'', JStr ''success''),
                       (''mensaje'', JStr (''Email enviado a '' @ destinatario))]
             | Some (tipo, texto) \<Rightarrow>
                 JObj [(''error'', JStr (''Error al enviar email: '' @ tipo @ '': '' @ texto))],
             [Envio mensaje])))"

text \<open>The call \<^verbatim>\<open>enviar_email_digest(destinatario=..., asunto=..., contenido_html=...,
  **config_email)\<close>: a key of \<^verbatim>\<open>config_email\<close> that is not one of the four optional parameters
  raises \<^verbatim>\<open>TypeError\<close> before the function runs; an absent one takes its default.\<close>

definition parametros_email :: "string list" where
  "parametros_email = [''smtp_server'', ''smtp_port'', ''remitente'', ''password'']"

definition enviar_con_config ::
  "entorno \<Rightarrow> string \<Rightarrow> string \<Rightarrow> string \<Rightarrow> pydict \<Rightarrow> (error + json) \<times> efecto list" where
  "enviar_con_config env destinatario asunto_email contenido_html config_email =
     (if \<not> list_all (\<lambda>k. k \<in> set parametros_email) (dict_keys config_email)
      then (Inl TypeError, [])
      else
        (let (resultado_email, efectos) =
               enviar_email_digest env destinatario asunto_email contenido_html
                 (dict_get_default config_email ''smtp_server'' (JStr ''smtp.gmail.com''))
                 (dict_get_default config_email ''smtp_port'' (JInt 587))
                 (dict_get_default config_email ''remitente'' JNull)
                 (dict_get_default config_email ''password'' JNull)
         in (Inr resultado_email, efectos)))"

definition asunto_inicio :: string where
  "asunto_inicio = [CHR 0xF0, CHR 0x9F, CHR 0x93, CHR 0xB0] @ '' Resumen BOE - ''"

text \<open>The dict \<^verbatim>\<open>resultado\<close> before the email step.\<close>

definition resultado_digest ::
  "string \<Rightarrow> pydict list \<Rightarrow> (string \<times> pydict list) list \<Rightarrow> string \<Rightarrow> pydict" where
  "resultado_digest fecha documentos clasificacion html_resumen =
     [(''fecha'', JStr fecha),
      (''total_documentos'', JInt (int (length documentos))),
      (''clasificacion'', JObj (map (\<lambda>(k, v). (k, JInt (int (length v)))) clasificacion)),
      (''documentos_por_tema'', JObj (map (\<lambda>(k, v). (k, JArr (map JObj v))) clasificacion)),
      (''html'', JStr html_resumen)]"

text \<open>Step 5: the email is sent when \<^verbatim>\<open>enviar_por_email and destinatario and config_email\<close>
  holds, and its outcome is stored under \<^verbatim>\<open>email\<close>.\<close>

definition paso_email ::
  "entorno \<Rightarrow> runtime \<Rightarrow> string \<Rightarrow> string \<Rightarrow> pydict \<Rightarrow> bool \<Rightarrow> string option \<Rightarrow> pydict option
     \<Rightarrow> (error + json) \<times> efecto list" where
  "paso_email env rt fecha html_resumen resultado enviar_por_email destinatario config_email =
     (case (destinatario, config_email) of
        (Some dest, Some config) \<Rightarrow>
          (if enviar_por_email \<and> dest \<noteq> [] \<and> config \<noteq> []
           then
             (case strptime rt fecha of
                None \<Rightarrow> (Inl ValueError, [])
              | Some fecha_obj \<Rightarrow>
                  (case enviar_con_config env dest
                          (asunto_inicio @ strftime rt ''%d/%m/%Y'' fecha_obj) html_resumen config of
                     (Inl e, efectos) \<Rightarrow> (Inl e, efectos)
                   | (Inr resultado_email, efectos) \<Rightarrow>
                       (Inr (JObj (AList.update ''email'' resultado_email resultado)), efectos)))
           else (Inr (JObj resultado), []))
      | _ \<Rightarrow> (Inr (JObj resultado), []))"

text \<open>\<^verbatim>\<open>generar_digest_completo\<close>: the value it returns, or the exception it raises, and the
  effects of the run.\<close>

definition generar_digest_completo ::
  "entorno \<Rightarrow> runtime \<Rightarrow> string \<Rightarrow> string list option \<Rightarrow> bool \<Rightarrow> string option \<Rightarrow> pydict option
     \<Rightarrow> (error + json) \<times> efecto list" where
  "generar_digest_completo env rt fecha temas_filtro enviar_por_email destinatario config_email =
     (let sumario = obtener_sumario_boe env fecha;
          peticion = [Peticion (url_sumario fecha)]
      in (case contiene_error sumario of
            Inl e \<Rightarrow> (Inl e, peticion)
          | Inr True \<Rightarrow> (Inr sumario, peticion)
          | Inr False \<Rightarrow>
              (let documentos = extraer_documentos sumario
               in (case clasificar_por_tema rt documentos temas_filtro of
                     Inl e \<Rightarrow> (Inl e, peticion)
                   | Inr clasificacion \<Rightarrow>
                       (case generar_resumen_html rt fecha clasificacion of
                          Inl e \<Rightarrow> (Inl e, peticion)
                        | Inr html_resumen \<Rightarrow>
                            (let (r, efectos) =
                                   paso_email env rt fecha html_resumen
                                     (resultado_digest fecha documentos clasificacion html_resumen)
                                     enviar_por_email destinatario config_email
                             in (r, peticion @ efectos)))))))"

text \<open>Two environments for concrete runs: one whose request fails, one that answers with the
  summary of the scenario and whose mail transport refuses the login.\<close>

definition entorno_sin_red :: entorno where
  "entorno_sin_red =
     \<lparr> http_get = (\<lambda>url. Excepcion ''ConnectionError'' ''sin red''),
       smtp_enviar = (\<lambda>m. None) \<rparr>"

definition entorno_smtp_falla :: entorno where
  "entorno_smtp_falla =
     \<lparr> http_get = (\<lambda>url. Respuesta sumario_ejemplo),
       smtp_enviar = (\<lambda>m. Some (''SMTPAuthenticationError'', ''535'')) \<rparr>"

definition config_ejemplo :: pydict where
  "config_ejemplo =
     [(''remitente'', JStr ''boe@example.org''), (''password'', JStr ''secreto''),
      (''smtp_server'', JStr ''smtp.gmail.com''), (''smtp_port'', JInt 587)]"

section \<open>The scanners follow the specified walk\<close>

lemma buscar_eq:
  "buscar_recursivo doc x acc = acc @ map doc (filter es_documento (mapping_nodes x))"
  "buscar_valores doc kvs acc = acc @ map doc (filter es_documento (mapping_nodes_values kvs))"
  "buscar_items doc xs acc = acc @ map doc (filter es_documento (mapping_nodes_items xs))"
  by (induction doc x acc and doc kvs acc and doc xs acc
      rule: buscar_recursivo_buscar_valores_buscar_items.induct) simp_all

lemma take_append_entries:
  "take n xs @ take (n - length (take n xs)) ys = take n (xs @ ys)"
  by (cases "n \<le> length xs") (simp_all add: min_def)

lemma limit_step:
  assumes "r = out @ take (nat (limit - int (length out))) as"
  shows "r @ take (nat (limit - int (length r))) bs =
         out @ take (nat (limit - int (length out))) (as @ bs)"
proof -
  let ?n = "nat (limit - int (length out))"
  have "nat (limit - int (length r)) = ?n - length (take ?n as)"
    using assms by (simp add: min_def)
  then show ?thesis
    using assms take_append_entries [of ?n as bs] by simp
qed

lemma rec_eq:
  "rec rt limit x out =
     out @ take (nat (limit - int (length out))) (map (make_entry rt) (filter (is_entry rt) (mapping_nodes x)))"
  "rec_values rt limit kvs out =
     out @ take (nat (limit - int (length out))) (map (make_entry rt) (filter (is_entry rt) (mapping_nodes_values kvs)))"
  "rec_items rt limit xs out =
     out @ take (nat (limit - int (length out))) (map (make_entry rt) (filter (is_entry rt) (mapping_nodes_items xs)))"
proof (induction rt limit x out and rt limit kvs out and rt limit xs out
      rule: rec_rec_values_rec_items.induct)
  case (1 rt limit x out)
  show ?case
  proof (cases "int (length out) \<ge> limit")
    case True
    then show ?thesis by simp
  next
    case False
    then have pos: "0 < nat (limit - int (length out))" by simp
    show ?thesis
    proof (cases x)
      case (JObj kvs)
      show ?thesis
      proof (cases "is_entry rt kvs")
        case True
        have "nat (limit - int (length (out @ [make_entry rt kvs]))) = nat (limit - int (length out)) - 1"
          by simp
        moreover have "rec rt limit x out = rec_values rt limit kvs (out @ [make_entry rt kvs])"
          using True JObj False by simp
        ultimately show ?thesis
          using "1.IH"(2)[OF False JObj] True JObj pos
          by (simp add: take_Cons' del: rec.simps)
      next
        case F2: False
        with "1.IH"(2)[OF False JObj] JObj False show ?thesis by simp
      qed
    next
      case (JArr xs)
      with "1.IH"(1)[OF False JArr] False show ?thesis by simp
    qed (use False in simp_all)
  qed
next
  case (2 rt limit out)
  then show ?case by simp
next
  case (3 rt limit kv kvs out)
  show ?case
    using "3.IH"(2) limit_step [OF "3.IH"(1)]
    by (simp del: rec.simps)
next
  case (4 rt limit out)
  then show ?case by simp
next
  case (5 rt limit i "is" out)
  show ?case
    using "5.IH"(2) limit_step [OF "5.IH"(1)]
    by (simp del: rec.simps)
qed

lemma set_fold_update_keys:
  "set (map fst (fold (\<lambda>k acc. AList.update (f k) k acc) ks acc0)) = f ` set ks \<union> set (map fst acc0)"
proof (induction ks arbitrary: acc0)
  case Nil
  then show ?case by simp
next
  case (Cons k ks)
  have "set (map fst (AList.update (f k) k acc0)) = insert (f k) (set (map fst acc0))"
    using dom_update [of "f k" k acc0] by (simp add: dom_map_of_conv_image_fst)
  then show ?case using Cons.IH [of "AList.update (f k) k acc0"] by auto
qed

lemma set_keys_lower:
  "set (dict_keys (keys_lower rt x)) = str_lower rt ` set (dict_keys x)"
  using set_fold_update_keys [of "str_lower rt" "dict_keys x" "[]"]
  by (simp add: keys_lower_def dict_keys_def)

lemma is_entry_qualifies: "is_entry rt x = qualifies rt x"
proof -
  have mem: "s \<in> set (dict_keys (keys_lower rt x)) \<longleftrightarrow> (\<exists>k \<in> set (dict_keys x). str_lower rt k = s)" for s
    by (auto simp: set_keys_lower)
  have t: "list_ex (title_like rt) (dict_keys x) \<longleftrightarrow>
             (''titulo'' \<in> set (dict_keys (keys_lower rt x)) \<or>
              ''title'' \<in> set (dict_keys (keys_lower rt x)) \<or>
              ''nombre'' \<in> set (dict_keys (keys_lower rt x)))"
    unfolding mem list_ex_iff by (auto simp: title_like_def)
  have u: "list_ex (url_like rt) (dict_keys x) \<longleftrightarrow> has_url rt x"
    by (auto simp: has_url_def list_ex_iff url_like_def startswith_def set_keys_lower)
  show ?thesis
    unfolding is_entry_def qualifies_def t u by blast
qed

lemma extract_sumario_entries_eq:
  "extract_sumario_entries rt sj limit =
     map (make_entry rt) (take (nat limit) (filter (qualifies rt) (mapping_nodes sj)))"
proof -
  have "is_entry rt = qualifies rt" by (rule ext) (rule is_entry_qualifies)
  then show ?thesis
    using rec_eq(1) [of rt limit sj "[]"]
    by (simp add: extract_sumario_entries_def take_map)
qed

lemma extraer_documentos_sumario_eq:
  "0 \<le> limit \<Longrightarrow>
   extraer_documentos_sumario sj limit =
     map doc_sumario (take (nat limit) (filter es_documento (mapping_nodes sj)))"
  by (simp add: extraer_documentos_sumario_def slice_to_def buscar_eq(1) take_map)

lemma extraer_documentos_eq:
  "extraer_documentos sj = map doc_digest (filter es_documento (mapping_nodes sj))"
  by (simp add: extraer_documentos_def buscar_eq(1))

lemma extraer_documentos_sumario_negative:
  "limit < 0 \<Longrightarrow>
   extraer_documentos_sumario sj limit =
     map doc_sumario
       (take (length (filter es_documento (mapping_nodes sj)) - nat (- limit))
          (filter es_documento (mapping_nodes sj)))"
  by (simp add: extraer_documentos_sumario_def slice_to_def buscar_eq(1) take_map)

text \<open>
  C4, as the code has it. For a tree with N nodes that meet the match rule,
  \<^verbatim>\<open>_extract_sumario_entries\<close> with a limit of at least N returns the N nodes in depth-first
  encounter order, and with a smaller limit the first \<open>limit\<close> of them (none for a limit
  below one). \<^verbatim>\<open>extraer_documentos_sumario\<close> does the same for its own rule, the key
  \<^verbatim>\<open>titulo\<close> and a key starting with \<^verbatim>\<open>url\<close> as written, and a limit that is not negative; its
  slice reads a negative limit from the end and drops that many of the last documents.
\<close>

theorem extract_takes_first_limit_in_walk_order:
  "(int (length (filter (qualifies rt) (mapping_nodes sj))) \<le> limit \<longrightarrow>
      extract_sumario_entries rt sj limit =
        map (make_entry rt) (filter (qualifies rt) (mapping_nodes sj))) \<and>
   (limit < int (length (filter (qualifies rt) (mapping_nodes sj))) \<longrightarrow>
      extract_sumario_entries rt sj limit =
        map (make_entry rt) (take (nat limit) (filter (qualifies rt) (mapping_nodes sj)))) \<and>
   (int (length (filter es_documento (mapping_nodes sj))) \<le> limit \<longrightarrow>
      extraer_documentos_sumario sj limit =
        map doc_sumario (filter es_documento (mapping_nodes sj))) \<and>
   (0 \<le> limit \<and> limit < int (length (filter es_documento (mapping_nodes sj))) \<longrightarrow>
      extraer_documentos_sumario sj limit =
        map doc_sumario (take (nat limit) (filter es_documento (mapping_nodes sj)))) \<and>
   (limit < 0 \<longrightarrow>
      extraer_documentos_sumario sj limit =
        map doc_sumario
          (take (length (filter es_documento (mapping_nodes sj)) - nat (- limit))
             (filter es_documento (mapping_nodes sj))))"
proof (intro conjI impI)
  assume "limit < 0"
  then show "extraer_documentos_sumario sj limit =
        map doc_sumario
          (take (length (filter es_documento (mapping_nodes sj)) - nat (- limit))
             (filter es_documento (mapping_nodes sj)))"
    by (rule extraer_documentos_sumario_negative)
next
  assume "int (length (filter (qualifies rt) (mapping_nodes sj))) \<le> limit"
  then show "extract_sumario_entries rt sj limit =
        map (make_entry rt) (filter (qualifies rt) (mapping_nodes sj))"
    by (simp add: extract_sumario_entries_eq)
next
  show "extract_sumario_entries rt sj limit =
        map (make_entry rt) (take (nat limit) (filter (qualifies rt) (mapping_nodes sj)))"
    by (rule extract_sumario_entries_eq)
next
  assume a: "int (length (filter es_documento (mapping_nodes sj))) \<le> limit"
  then have "0 \<le> limit" by linarith
  with a show "extraer_documentos_sumario sj limit =
        map doc_sumario (filter es_documento (mapping_nodes sj))"
    by (simp add: extraer_documentos_sumario_eq)
next
  assume "0 \<le> limit \<and> limit < int (length (filter es_documento (mapping_nodes sj)))"
  then show "extraer_documentos_sumario sj limit =
        map doc_sumario (take (nat limit) (filter es_documento (mapping_nodes sj)))"
    by (simp add: extraer_documentos_sumario_eq)
qed

lemma ejemplo_qualifying:
  "length (filter (qualifies ascii_runtime) (mapping_nodes sumario_ejemplo)) = 2"
  "length (filter es_documento (mapping_nodes sumario_ejemplo)) = 2"
  by code_simp+

theorem extract_takes_first_limit_in_walk_order_witness:
  "extract_sumario_entries ascii_runtime sumario_ejemplo 12 =
     map (make_entry ascii_runtime) (filter (qualifies ascii_runtime) (mapping_nodes sumario_ejemplo)) \<and>
   extract_sumario_entries ascii_runtime sumario_ejemplo 1 =
     [JObj [(''titulo'', JStr ''Orden de empleo juvenil''),
            (''urls'', JObj [(''urlpdf'', JStr ''http://x/1.pdf'')])]] \<and>
   extraer_documentos_sumario sumario_ejemplo 15 =
     map doc_sumario (filter es_documento (mapping_nodes sumario_ejemplo)) \<and>
   extraer_documentos_sumario sumario_ejemplo 1 =
     [[(''titulo'', JStr ''Orden de empleo juvenil''), (''seccion'', JStr ''II''),
       (''departamento'', JStr []), (''url_pdf'', JStr ''http://x/1.pdf''),
       (''url_html'', JStr [])]] \<and>
   extraer_documentos_sumario sumario_ejemplo (- 2) = []"
proof -
  have e1: "map (make_entry ascii_runtime)
              (take (Suc 0) (filter (qualifies ascii_runtime) (mapping_nodes sumario_ejemplo))) =
            [JObj [(''titulo'', JStr ''Orden de empleo juvenil''),
                   (''urls'', JObj [(''urlpdf'', JStr ''http://x/1.pdf'')])]]"
    by code_simp
  have e2: "map doc_sumario (take (Suc 0) (filter es_documento (mapping_nodes sumario_ejemplo))) =
     [[(''titulo'', JStr ''Orden de empleo juvenil''), (''seccion'', JStr ''II''),
       (''departamento'', JStr []), (''url_pdf'', JStr ''http://x/1.pdf''),
       (''url_html'', JStr [])]]"
    by code_simp
  show ?thesis
    using extract_takes_first_limit_in_walk_order [of ascii_runtime sumario_ejemplo 12]
      extract_takes_first_limit_in_walk_order [of ascii_runtime sumario_ejemplo 1]
      extract_takes_first_limit_in_walk_order [of ascii_runtime sumario_ejemplo 15]
      extract_takes_first_limit_in_walk_order [of ascii_runtime sumario_ejemplo "- 2"]
    by (simp add: ejemplo_qualifying e1 e2)
qed

theorem chat_scanner_rule_and_negative_limit:
  "length (filter (qualifies ascii_runtime)
     (mapping_nodes (JObj [(''title'', JStr ''Ley de vivienda social''),
                            (''url'', JStr ''http://x/2.html'')]))) = 1 \<and>
   extraer_documentos_sumario
     (JObj [(''title'', JStr ''Ley de vivienda social''), (''url'', JStr ''http://x/2.html'')]) 15 = [] \<and>
   length (filter es_documento (mapping_nodes sumario_ejemplo)) = 2 \<and>
   extraer_documentos_sumario sumario_ejemplo (- 1) =
     [[(''titulo'', JStr ''Orden de empleo juvenil''), (''seccion'', JStr ''II''),
       (''departamento'', JStr []), (''url_pdf'', JStr ''http://x/1.pdf''),
       (''url_html'', JStr [])]]"
  by code_simp

lemma es_documento_qualifies:
  assumes t: "str_lower rt ''titulo'' = ''titulo''"
    and u: "\<forall>k. prefix ''url'' k \<longrightarrow> prefix ''url'' (str_lower rt k)"
    and d: "es_documento x"
  shows "qualifies rt x"
proof -
  from d have "''titulo'' \<in> set (dict_keys x)" by (simp add: es_documento_def)
  with t have a: "list_ex (title_like rt) (dict_keys x)"
    unfolding list_ex_iff title_like_def by (intro bexI [of _ "''titulo''"]) simp_all
  from d obtain k where "k \<in> set (dict_keys x)" "prefix ''url'' k"
    by (auto simp: es_documento_def list_ex_iff startswith_def)
  with u have b: "list_ex (url_like rt) (dict_keys x)"
    unfolding list_ex_iff url_like_def by blast
  from a b show ?thesis by (simp add: qualifies_def)
qed

lemma ascii_lower_keeps_url:
  "prefix ''url'' k \<Longrightarrow> prefix ''url'' (str_lower ascii_runtime k)"
proof -
  assume "prefix ''url'' k"
  then obtain r where "k = ''url'' @ r" by (auto simp: prefix_def)
  moreover have "map ascii_lower_char ''url'' = ''url''" by code_simp
  ultimately show ?thesis by (simp add: ascii_runtime_def ascii_lower_char_def)
qed

lemma ascii_lower_titulo: "str_lower ascii_runtime ''titulo'' = ''titulo''"
  by code_simp

text \<open>
  C3, as the code has it. \<^verbatim>\<open>_extract_sumario_entries\<close> returns only mapping nodes that have a
  key case-insensitively equal to \<^verbatim>\<open>titulo\<close>, \<^verbatim>\<open>title\<close> or \<^verbatim>\<open>nombre\<close> and a key whose lowercased
  form starts with \<^verbatim>\<open>url\<close>, and all of them when its limit is not below their number.
  \<^verbatim>\<open>extraer_documentos\<close> returns exactly the mapping nodes that have the key \<^verbatim>\<open>titulo\<close> and a
  key starting with \<^verbatim>\<open>url\<close>, both as written; such a node also meets the case-insensitive
  rule, so neither scanner returns a node with no title-like key or no url-like key.
\<close>

theorem scanners_return_exactly_matching_nodes:
  "(\<forall>e \<in> set (extract_sumario_entries rt sj limit).
      \<exists>x \<in> set (mapping_nodes sj). qualifies rt x \<and> e = make_entry rt x) \<and>
   (int (length (filter (qualifies rt) (mapping_nodes sj))) \<le> limit \<longrightarrow>
      extract_sumario_entries rt sj limit =
        map (make_entry rt) (filter (qualifies rt) (mapping_nodes sj))) \<and>
   extraer_documentos sj = map doc_digest (filter es_documento (mapping_nodes sj)) \<and>
   (str_lower rt ''titulo'' = ''titulo'' \<and>
    (\<forall>k. prefix ''url'' k \<longrightarrow> prefix ''url'' (str_lower rt k)) \<longrightarrow>
      (\<forall>x. es_documento x \<longrightarrow> qualifies rt x))"
proof (intro conjI)
  show "\<forall>e \<in> set (extract_sumario_entries rt sj limit).
      \<exists>x \<in> set (mapping_nodes sj). qualifies rt x \<and> e = make_entry rt x"
  proof
    fix e assume "e \<in> set (extract_sumario_entries rt sj limit)"
    then obtain x where x: "x \<in> set (take (nat limit) (filter (qualifies rt) (mapping_nodes sj)))"
      and e: "e = make_entry rt x"
      by (auto simp: extract_sumario_entries_eq)
    from x have "x \<in> set (filter (qualifies rt) (mapping_nodes sj))" by (rule in_set_takeD)
    with e show "\<exists>x \<in> set (mapping_nodes sj). qualifies rt x \<and> e = make_entry rt x" by auto
  qed
next
  show "int (length (filter (qualifies rt) (mapping_nodes sj))) \<le> limit \<longrightarrow>
      extract_sumario_entries rt sj limit =
        map (make_entry rt) (filter (qualifies rt) (mapping_nodes sj))"
    by (simp add: extract_sumario_entries_eq)
next
  show "extraer_documentos sj = map doc_digest (filter es_documento (mapping_nodes sj))"
    by (rule extraer_documentos_eq)
next
  show "str_lower rt ''titulo'' = ''titulo'' \<and>
    (\<forall>k. prefix ''url'' k \<longrightarrow> prefix ''url'' (str_lower rt k)) \<longrightarrow>
      (\<forall>x. es_documento x \<longrightarrow> qualifies rt x)"
    using es_documento_qualifies by blast
qed

theorem scanners_return_exactly_matching_nodes_witness:
  "extract_sumario_entries ascii_runtime sumario_ejemplo 12 =
     [JObj [(''titulo'', JStr ''Orden de empleo juvenil''),
            (''urls'', JObj [(''urlpdf'', JStr ''http://x/1.pdf'')])],
      JObj [(''titulo'', JStr ''Ley de vivienda social''),
            (''urls'', JObj [(''urlhtml'', JStr ''http://x/2.html'')])]] \<and>
   length (extraer_documentos sumario_ejemplo) = 2 \<and>
   es_documento [(''titulo'', JStr ''Orden''), (''urlPdf'', JStr ''http://x/1.pdf'')] \<and>
   qualifies ascii_runtime [(''titulo'', JStr ''Orden''), (''urlPdf'', JStr ''http://x/1.pdf'')]"
proof -
  have e: "map (make_entry ascii_runtime)
             (filter (qualifies ascii_runtime) (mapping_nodes sumario_ejemplo)) =
     [JObj [(''titulo'', JStr ''Orden de empleo juvenil''),
            (''urls'', JObj [(''urlpdf'', JStr ''http://x/1.pdf'')])],
      JObj [(''titulo'', JStr ''Ley de vivienda social''),
            (''urls'', JObj [(''urlhtml'', JStr ''http://x/2.html'')])]]"
    by code_simp
  have d: "es_documento [(''titulo'', JStr ''Orden''), (''urlPdf'', JStr ''http://x/1.pdf'')]"
    by code_simp
  have u: "\<forall>k. prefix ''url'' k \<longrightarrow> prefix ''url'' (str_lower ascii_runtime k)"
    using ascii_lower_keeps_url by blast
  show ?thesis
    using scanners_return_exactly_matching_nodes [of ascii_runtime sumario_ejemplo 12]
      ascii_lower_titulo u d
    by (simp add: ejemplo_qualifying e)
qed

theorem extraer_documentos_misses_title_key:
  "qualifies ascii_runtime
     [(''title'', JStr ''Ley de vivienda social''), (''url'', JStr ''http://x/2.html'')] \<and>
   extraer_documentos
     (JObj [(''title'', JStr ''Ley de vivienda social''), (''url'', JStr ''http://x/2.html'')]) = []"
  by code_simp

lemma dict_append_map:
  "dict_append t d c = map (\<lambda>(k, v). (k, if k = t then v @ [d] else v)) c"
  by (simp add: dict_append_def split_def cong: map_cong)

lemma doc_completo_texto:
  "doc_completo d \<Longrightarrow> \<exists>h. texto_busqueda rt d = Inr h"
  by (auto simp: doc_completo_def texto_busqueda_def dict_index_def dict_keys_def
      map_of_eq_None_iff split: option.splits)

lemma doc_completo_asignar:
  "doc_completo d \<Longrightarrow> \<exists>t. asignar rt activos d = Inr t"
  using doc_completo_texto [of d rt] by (auto simp: asignar_def)

text \<open>The bucket of a readable document, as a plain function.\<close>

lemma clasificar_docs_buckets:
  "list_all doc_completo docs \<Longrightarrow>
   clasificar_docs rt activos docs c =
     Inr (map (\<lambda>(k, v). (k, v @ filter (\<lambda>d. asignar rt activos d = Inr k) docs)) c)"
proof (induction docs arbitrary: c)
  case Nil
  then show ?case by (simp add: split_def)
next
  case (Cons d docs)
  then obtain t where t: "asignar rt activos d = Inr t"
    using doc_completo_asignar [of d rt activos] by auto
  from Cons have "list_all doc_completo docs" by simp
  from Cons.IH [OF this, of "dict_append t d c"] t show ?case
    by (auto simp: dict_append_map split_def)
qed

lemma mset_concat_buckets:
  "distinct ks \<Longrightarrow> inj_on g (set ks) \<Longrightarrow>
   mset (concat (map (\<lambda>k. filter (\<lambda>d. f d = g k) docs) ks)) =
   mset (filter (\<lambda>d. f d \<in> g ` set ks) docs)"
proof (induction ks)
  case Nil
  then show ?case by simp
next
  case (Cons k ks)
  then have nk: "g k \<notin> g ` set ks" by (auto simp: inj_on_def)
  have split: "mset (filter (\<lambda>d. f d = g k) docs) + mset (filter (\<lambda>d. f d \<in> g ` set ks) docs) =
        mset (filter (\<lambda>d. f d \<in> g ` set (k # ks)) docs)"
    using nk by (induction docs) auto
  from Cons have "mset (concat (map (\<lambda>k. filter (\<lambda>d. f d = g k) docs) ks)) =
      mset (filter (\<lambda>d. f d \<in> g ` set ks) docs)"
    by (simp add: inj_on_def)
  with split show ?case by simp
qed

lemma clasificacion_inicial_TEMAS:
  "clasificacion_inicial TEMAS_BOE = map (\<lambda>k. (k, [])) orden_categorias"
  by (simp add: clasificacion_inicial_def TEMAS_BOE_def orden_categorias_def)

lemma distinct_orden_categorias: "distinct orden_categorias"
  by (simp add: TEMAS_BOE_def orden_categorias_def)

lemma buscar_tema_in_keys:
  "buscar_tema activos texto = Some t \<Longrightarrow> t \<in> fst ` set activos"
  by (induction activos texto rule: buscar_tema.induct) (auto split: if_splits)

lemma temas_activos_subset:
  "set (temas_activos tabla filtro) \<subseteq> set tabla"
  by (auto simp: temas_activos_def split: option.splits)

lemma asignar_in_orden:
  "asignar rt (temas_activos TEMAS_BOE filtro) d = Inr t \<Longrightarrow> t \<in> set orden_categorias"
proof -
  assume a: "asignar rt (temas_activos TEMAS_BOE filtro) d = Inr t"
  then obtain h where h: "texto_busqueda rt d = Inr h"
    by (auto simp: asignar_def split: sum.splits)
  show ?thesis
  proof (cases "buscar_tema (temas_activos TEMAS_BOE filtro) h")
    case None
    with a h show ?thesis by (simp add: asignar_def orden_categorias_def)
  next
    case (Some t')
    with a h have "t = t'" by (simp add: asignar_def)
    with Some buscar_tema_in_keys [of "temas_activos TEMAS_BOE filtro" h t']
      temas_activos_subset [of TEMAS_BOE filtro]
    show ?thesis by (auto simp: orden_categorias_def)
  qed
qed

lemma clasificar_por_tema_buckets:
  assumes "list_all doc_completo docs"
  shows "clasificar_por_tema rt docs filtro =
     Inr (filter (\<lambda>(k, v). v \<noteq> []) (map (\<lambda>k. (k, bucket rt filtro docs k)) orden_categorias))"
  using clasificar_docs_buckets [OF assms, of rt "temas_activos TEMAS_BOE filtro" "clasificacion_inicial TEMAS_BOE"]
  by (simp add: clasificar_por_tema_def clasificar_def clasificacion_inicial_TEMAS bucket_def comp_def)

lemma doc_digest_completo: "doc_completo (doc_digest obj)"
  by (simp add: doc_completo_def doc_digest_def dict_keys_def)

lemma extraer_documentos_completos: "list_all doc_completo (extraer_documentos sj)"
  by (simp add: extraer_documentos_eq list_all_iff doc_digest_completo)

lemma keys_filter_buckets:
  "map fst (filter (\<lambda>(k, v). v \<noteq> []) (map (\<lambda>k. (k, g k)) ks)) = filter (\<lambda>k. g k \<noteq> []) ks"
  by (induction ks) auto

lemma concat_filter_buckets:
  "concat (map snd (filter (\<lambda>(k, v). v \<noteq> []) (map (\<lambda>k. (k, g k)) ks))) = concat (map g ks)"
  by (induction ks) auto

lemma bucket_cover:
  assumes "list_all doc_completo docs"
  shows "filter (\<lambda>d. asignar rt (temas_activos TEMAS_BOE filtro) d \<in> Inr ` set orden_categorias) docs = docs"
proof -
  have "asignar rt (temas_activos TEMAS_BOE filtro) d \<in> Inr ` set orden_categorias"
    if "d \<in> set docs" for d
  proof -
    from that assms have "doc_completo d" by (simp add: list_all_iff)
    then obtain t where t: "asignar rt (temas_activos TEMAS_BOE filtro) d = Inr t"
      using doc_completo_asignar by blast
    with asignar_in_orden [OF t] show ?thesis by simp
  qed
  then show ?thesis by (simp add: filter_id_conv)
qed

lemma mset_buckets:
  assumes "list_all doc_completo docs"
  shows "mset (concat (map (bucket rt filtro docs) orden_categorias)) = mset docs"
proof -
  have "mset (concat (map (\<lambda>k. filter (\<lambda>d. asignar rt (temas_activos TEMAS_BOE filtro) d = Inr k) docs) orden_categorias)) =
        mset (filter (\<lambda>d. asignar rt (temas_activos TEMAS_BOE filtro) d \<in> Inr ` set orden_categorias) docs)"
    by (rule mset_concat_buckets) (simp_all add: distinct_orden_categorias)
  then show ?thesis
    by (simp add: bucket_cover [OF assms] bucket_def [abs_def])
qed

lemma dict_index_absent:
  "k \<notin> set (dict_keys d) \<Longrightarrow> dict_index d k = Inl (KeyError k)"
  by (simp add: dict_index_def dict_keys_def map_of_eq_None_iff [THEN iffD2])

lemma dict_index_present:
  "k \<in> set (dict_keys d) \<Longrightarrow> \<exists>v. dict_index d k = Inr v"
  by (cases "map_of d k") (auto simp: dict_index_def dict_keys_def map_of_eq_None_iff)

lemma texto_busqueda_incompleto:
  assumes "\<not> doc_completo d"
  shows "\<exists>k. texto_busqueda rt d = Inl (KeyError k)"
proof (cases "''titulo'' \<in> set (dict_keys d)")
  case False
  then show ?thesis by (simp add: texto_busqueda_def dict_index_absent)
next
  case t: True
  then obtain vt where vt: "dict_index d ''titulo'' = Inr vt" using dict_index_present by blast
  show ?thesis
  proof (cases "''seccion'' \<in> set (dict_keys d)")
    case False
    with vt show ?thesis by (simp add: texto_busqueda_def dict_index_absent)
  next
    case s: True
    then obtain vs where vs: "dict_index d ''seccion'' = Inr vs" using dict_index_present by blast
    from assms t s have "''departamento'' \<notin> set (dict_keys d)" by (simp add: doc_completo_def)
    with vt vs show ?thesis by (simp add: texto_busqueda_def dict_index_absent)
  qed
qed

lemma asignar_incompleto:
  "\<not> doc_completo d \<Longrightarrow> \<exists>k. asignar rt activos d = Inl (KeyError k)"
  using texto_busqueda_incompleto [of d rt] by (auto simp: asignar_def)

lemma clasificar_docs_incompleto:
  "\<not> list_all doc_completo docs \<Longrightarrow> \<exists>k. clasificar_docs rt activos docs c = Inl (KeyError k)"
proof (induction docs arbitrary: c)
  case Nil
  then show ?case by simp
next
  case (Cons d docs)
  show ?case
  proof (cases "doc_completo d")
    case True
    then obtain t where t: "asignar rt activos d = Inr t"
      using doc_completo_asignar by blast
    from True Cons.prems have "\<not> list_all doc_completo docs" by simp
    from Cons.IH [OF this, of "dict_append t d c"] t show ?thesis by simp
  next
    case False
    then obtain k where "asignar rt activos d = Inl (KeyError k)"
      using asignar_incompleto by blast
    then show ?thesis by simp
  qed
qed

lemma clasificar_por_tema_incompleto:
  "\<not> list_all doc_completo docs \<Longrightarrow> \<exists>k. clasificar_por_tema rt docs filtro = Inl (KeyError k)"
  using clasificar_docs_incompleto [of docs rt "temas_activos TEMAS_BOE filtro" "clasificacion_inicial TEMAS_BOE"]
  by (auto simp: clasificar_por_tema_def clasificar_def)

lemma doc_digest_defaults:
  "''seccion'' \<notin> set (dict_keys obj) \<Longrightarrow> dict_index (doc_digest obj) ''seccion'' = Inr (JStr [])"
  "''departamento'' \<notin> set (dict_keys obj) \<Longrightarrow>
     dict_index (doc_digest obj) ''departamento'' = Inr (JStr [])"
  by (simp_all add: doc_digest_def dict_index_def dict_get_default_def dict_keys_def
      map_of_eq_None_iff [THEN iffD2])

text \<open>
  C1, as the code has it. \<^verbatim>\<open>clasificar_por_tema\<close> builds the haystack from \<^verbatim>\<open>doc['titulo']\<close>,
  \<^verbatim>\<open>doc['seccion']\<close> and \<^verbatim>\<open>doc['departamento']\<close> and raises \<^verbatim>\<open>KeyError\<close> on a document that lacks
  one of them. The empty string for a missing section or department is stored by
  \<^verbatim>\<open>extraer_documentos\<close>, so every document it builds carries the three entries. For every
  list of documents that carry them the classifier returns a partition: the buckets together
  hold the input list as a multiset, the bucket names are distinct, every document is in
  exactly one bucket, and no bucket is empty. For any other list it raises \<^verbatim>\<open>KeyError\<close>.
\<close>

theorem clasificar_por_tema_partition:
  "list_all doc_completo (extraer_documentos sj) \<and>
   (''seccion'' \<notin> set (dict_keys obj) \<longrightarrow>
      dict_index (doc_digest obj) ''seccion'' = Inr (JStr [])) \<and>
   (''departamento'' \<notin> set (dict_keys obj) \<longrightarrow>
      dict_index (doc_digest obj) ''departamento'' = Inr (JStr [])) \<and>
   (list_all doc_completo docs \<longrightarrow>
     (\<exists>c. clasificar_por_tema rt docs filtro = Inr c \<and>
          mset (concat (map snd c)) = mset docs \<and>
          distinct (map fst c) \<and>
          (\<forall>kv \<in> set c. snd kv \<noteq> []) \<and>
          (\<forall>d \<in> set docs. \<exists>!kv. kv \<in> set c \<and> d \<in> set (snd kv)))) \<and>
   (\<not> list_all doc_completo docs \<longrightarrow>
     (\<exists>k. clasificar_por_tema rt docs filtro = Inl (KeyError k)))"
proof (intro conjI impI)
  assume "''seccion'' \<notin> set (dict_keys obj)"
  then show "dict_index (doc_digest obj) ''seccion'' = Inr (JStr [])"
    by (rule doc_digest_defaults)
next
  assume "''departamento'' \<notin> set (dict_keys obj)"
  then show "dict_index (doc_digest obj) ''departamento'' = Inr (JStr [])"
    by (rule doc_digest_defaults)
next
  assume "\<not> list_all doc_completo docs"
  then show "\<exists>k. clasificar_por_tema rt docs filtro = Inl (KeyError k)"
    by (rule clasificar_por_tema_incompleto)
next
  show "list_all doc_completo (extraer_documentos sj)" by (rule extraer_documentos_completos)
next
  assume ok: "list_all doc_completo docs"
  define c where "c = filter (\<lambda>(k, v). v \<noteq> []) (map (\<lambda>k. (k, bucket rt filtro docs k)) orden_categorias)"
  have r: "clasificar_por_tema rt docs filtro = Inr c"
    unfolding c_def by (rule clasificar_por_tema_buckets [OF ok])
  have m: "mset (concat (map snd c)) = mset docs"
    unfolding c_def concat_filter_buckets by (rule mset_buckets [OF ok])
  have dk: "distinct (map fst c)"
    unfolding c_def keys_filter_buckets using distinct_orden_categorias by simp
  have ne: "\<forall>kv \<in> set c. snd kv \<noteq> []" by (auto simp: c_def)
  have mem: "kv \<in> set c \<longleftrightarrow> (fst kv \<in> set orden_categorias \<and> snd kv = bucket rt filtro docs (fst kv) \<and> snd kv \<noteq> [])" for kv
    by (cases kv) (auto simp: c_def)
  have one: "\<exists>!kv. kv \<in> set c \<and> d \<in> set (snd kv)" if d: "d \<in> set docs" for d
  proof -
    from d ok have "doc_completo d" by (simp add: list_all_iff)
    then obtain t where t: "asignar rt (temas_activos TEMAS_BOE filtro) d = Inr t"
      using doc_completo_asignar by blast
    have tin: "t \<in> set orden_categorias" by (rule asignar_in_orden [OF t])
    have din: "d \<in> set (bucket rt filtro docs t)" using d t by (simp add: bucket_def)
    show ?thesis
    proof (rule ex1I [of _ "(t, bucket rt filtro docs t)"])
      show "(t, bucket rt filtro docs t) \<in> set c \<and> d \<in> set (snd (t, bucket rt filtro docs t))"
        using tin din by (auto simp: mem)
    next
      fix kv assume a: "kv \<in> set c \<and> d \<in> set (snd kv)"
      then have "snd kv = bucket rt filtro docs (fst kv)" by (simp add: mem)
      with a have "asignar rt (temas_activos TEMAS_BOE filtro) d = Inr (fst kv)"
        by (simp add: bucket_def)
      with t have "fst kv = t" by simp
      with \<open>snd kv = bucket rt filtro docs (fst kv)\<close> show "kv = (t, bucket rt filtro docs t)"
        by (cases kv) simp
    qed
  qed
  from r m dk ne one
  show "\<exists>c. clasificar_por_tema rt docs filtro = Inr c \<and>
          mset (concat (map snd c)) = mset docs \<and>
          distinct (map fst c) \<and>
          (\<forall>kv \<in> set c. snd kv \<noteq> []) \<and>
          (\<forall>d \<in> set docs. \<exists>!kv. kv \<in> set c \<and> d \<in> set (snd kv))"
    by blast
qed

theorem clasificar_por_tema_partition_witness:
  "list_all doc_completo (extraer_documentos sumario_ejemplo) \<and>
   (\<exists>c. clasificar_por_tema ascii_runtime (extraer_documentos sumario_ejemplo) None = Inr c \<and>
        mset (concat (map snd c)) = mset (extraer_documentos sumario_ejemplo) \<and>
        distinct (map fst c) \<and> map fst c = [''empleo'', ''vivienda''])"
proof -
  have ok: "list_all doc_completo (extraer_documentos sumario_ejemplo)" by code_simp
  obtain c where c: "clasificar_por_tema ascii_runtime (extraer_documentos sumario_ejemplo) None = Inr c"
      "mset (concat (map snd c)) = mset (extraer_documentos sumario_ejemplo)" "distinct (map fst c)"
    using clasificar_por_tema_partition [where sj = sumario_ejemplo
        and docs = "extraer_documentos sumario_ejemplo" and rt = ascii_runtime and filtro = None] ok
    by blast
  have "map fst (projr (clasificar_por_tema ascii_runtime (extraer_documentos sumario_ejemplo) None)) =
        [''empleo'', ''vivienda'']"
    by code_simp
  with c ok show ?thesis by simp
qed

theorem classify_raises_on_missing_section:
  "clasificar_por_tema ascii_runtime [[(''titulo'', JStr ''Ley de vivienda social'')]] None =
     Inl (KeyError ''seccion'')"
  by code_simp

lemma temas_activos_known:
  assumes "filter (\<lambda>t. t \<in> set (map fst tabla)) filtro \<noteq> []"
  shows "temas_activos tabla (Some filtro) =
         temas_activos tabla (Some (filter (\<lambda>t. t \<in> set (map fst tabla)) filtro))"
proof -
  from assms have "filtro \<noteq> []" by auto
  moreover have "filter (\<lambda>(k, v). k \<in> set filtro) tabla =
      filter (\<lambda>(k, v). k \<in> set (filter (\<lambda>t. t \<in> set (map fst tabla)) filtro)) tabla"
    by (rule filter_cong) force+
  ultimately show ?thesis using assms by (simp add: temas_activos_def)
qed

lemma temas_activos_unknown:
  assumes "filtro \<noteq> []" and "filter (\<lambda>t. t \<in> set (map fst tabla)) filtro = []"
  shows "temas_activos tabla (Some filtro) = []"
proof -
  from assms(2) have nk: "t \<notin> fst ` set tabla" if "t \<in> set filtro" for t
    using that by (auto simp: filter_empty_conv)
  have "k \<notin> set filtro" if "(k, v) \<in> set tabla" for k v
  proof
    assume "k \<in> set filtro"
    from nk [OF this] that show False by force
  qed
  then have "filter (\<lambda>(k, v). k \<in> set filtro) tabla = []"
    by (auto simp: filter_empty_conv)
  with assms(1) show ?thesis by (simp add: temas_activos_def)
qed

lemma bucket_sin_temas:
  assumes "list_all doc_completo docs" and "temas_activos TEMAS_BOE filtro = []"
  shows "bucket rt filtro docs k = (if k = ''otros'' then docs else [])"
proof -
  have "asignar rt [] d = Inr ''otros''" if "d \<in> set docs" for d
  proof -
    from that assms(1) have "doc_completo d" by (simp add: list_all_iff)
    then obtain h where "texto_busqueda rt d = Inr h" using doc_completo_texto by blast
    then show ?thesis by (simp add: asignar_def)
  qed
  then show ?thesis
    using assms(2) by (auto simp: bucket_def filter_empty_conv filter_id_conv)
qed

lemma solo_otros:
  "filter (\<lambda>(k, v). v \<noteq> [])
     (map (\<lambda>k. (k, if k = ''otros'' then docs else [])) orden_categorias) =
   (if docs = [] then [] else [(''otros'', docs)])"
  by (simp add: orden_categorias_def TEMAS_BOE_def)

text \<open>
  C2, as the code has it. An empty filter is the same as no filter. Names that are not topics
  of the table are ignored as long as the filter keeps a known topic: it classifies as the
  filter of its known names does. A filter that is not empty and names no known topic leaves
  no topic active, and every document goes to \<^verbatim>\<open>otros\<close>.
\<close>

theorem clasificar_por_tema_filter:
  "clasificar_por_tema rt docs (Some []) = clasificar_por_tema rt docs None \<and>
   (filter (\<lambda>t. t \<in> set (map fst TEMAS_BOE)) filtro \<noteq> [] \<longrightarrow>
      clasificar_por_tema rt docs (Some filtro) =
      clasificar_por_tema rt docs (Some (filter (\<lambda>t. t \<in> set (map fst TEMAS_BOE)) filtro))) \<and>
   (filtro \<noteq> [] \<and> filter (\<lambda>t. t \<in> set (map fst TEMAS_BOE)) filtro = [] \<and>
    list_all doc_completo docs \<longrightarrow>
      clasificar_por_tema rt docs (Some filtro) =
      Inr (if docs = [] then [] else [(''otros'', docs)]))"
proof (intro conjI impI)
  show "clasificar_por_tema rt docs (Some []) = clasificar_por_tema rt docs None"
    by (simp add: clasificar_por_tema_def clasificar_def temas_activos_def)
next
  assume "filter (\<lambda>t. t \<in> set (map fst TEMAS_BOE)) filtro \<noteq> []"
  from temas_activos_known [OF this]
  show "clasificar_por_tema rt docs (Some filtro) =
      clasificar_por_tema rt docs (Some (filter (\<lambda>t. t \<in> set (map fst TEMAS_BOE)) filtro))"
    by (simp add: clasificar_por_tema_def clasificar_def)
next
  assume a: "filtro \<noteq> [] \<and> filter (\<lambda>t. t \<in> set (map fst TEMAS_BOE)) filtro = [] \<and>
    list_all doc_completo docs"
  then have e: "temas_activos TEMAS_BOE (Some filtro) = []"
    using temas_activos_unknown by blast
  from a have ok: "list_all doc_completo docs" by simp
  show "clasificar_por_tema rt docs (Some filtro) =
      Inr (if docs = [] then [] else [(''otros'', docs)])"
    unfolding clasificar_por_tema_buckets [OF ok] bucket_sin_temas [OF ok e] solo_otros ..
qed

theorem clasificar_por_tema_filter_witness:
  "clasificar_por_tema ascii_runtime (extraer_documentos sumario_ejemplo) (Some []) =
   clasificar_por_tema ascii_runtime (extraer_documentos sumario_ejemplo) None \<and>
   clasificar_por_tema ascii_runtime (extraer_documentos sumario_ejemplo)
     (Some [''vivienda'', ''deportes'']) =
   clasificar_por_tema ascii_runtime (extraer_documentos sumario_ejemplo) (Some [''vivienda'']) \<and>
   clasificar_por_tema ascii_runtime (extraer_documentos sumario_ejemplo) (Some [''deportes'']) =
   Inr [(''otros'', extraer_documentos sumario_ejemplo)]"
proof -
  have k1: "filter (\<lambda>t. t \<in> set (map fst TEMAS_BOE)) [''vivienda'', ''deportes''] = [''vivienda'']"
    by (simp add: TEMAS_BOE_def)
  have k2: "filter (\<lambda>t. t \<in> set (map fst TEMAS_BOE)) [''deportes''] = []"
    by (simp add: TEMAS_BOE_def)
  have ok: "list_all doc_completo (extraer_documentos sumario_ejemplo)"
    by (rule extraer_documentos_completos)
  have ne: "extraer_documentos sumario_ejemplo \<noteq> []" by code_simp
  show ?thesis
    using clasificar_por_tema_filter [of ascii_runtime "extraer_documentos sumario_ejemplo" "[''vivienda'', ''deportes'']"]
      clasificar_por_tema_filter [of ascii_runtime "extraer_documentos sumario_ejemplo" "[''deportes'']"]
      k1 k2 ok ne
    by simp
qed

theorem unknown_only_filter_differs_from_no_filter:
  "clasificar_por_tema ascii_runtime (extraer_documentos sumario_ejemplo) (Some [''deportes'']) =
     Inr [(''otros'', extraer_documentos sumario_ejemplo)] \<and>
   map fst (projr (clasificar_por_tema ascii_runtime (extraer_documentos sumario_ejemplo) None)) =
     [''empleo'', ''vivienda''] \<and>
   clasificar_por_tema ascii_runtime (extraer_documentos sumario_ejemplo) (Some [''deportes'']) \<noteq>
   clasificar_por_tema ascii_runtime (extraer_documentos sumario_ejemplo) None"
proof -
  have a: "clasificar_por_tema ascii_runtime (extraer_documentos sumario_ejemplo) (Some [''deportes'']) =
     Inr [(''otros'', extraer_documentos sumario_ejemplo)]"
    by code_simp
  have b: "map fst (projr (clasificar_por_tema ascii_runtime (extraer_documentos sumario_ejemplo) None)) =
     [''empleo'', ''vivienda'']"
    by code_simp
  have c: "clasificar_por_tema ascii_runtime (extraer_documentos sumario_ejemplo) (Some [''deportes'']) \<noteq>
      clasificar_por_tema ascii_runtime (extraer_documentos sumario_ejemplo) None"
  proof
    assume "clasificar_por_tema ascii_runtime (extraer_documentos sumario_ejemplo) (Some [''deportes'']) =
      clasificar_por_tema ascii_runtime (extraer_documentos sumario_ejemplo) None"
    with a have "clasificar_por_tema ascii_runtime (extraer_documentos sumario_ejemplo) None =
      Inr [(''otros'', extraer_documentos sumario_ejemplo)]" by simp
    then have "map fst (projr (clasificar_por_tema ascii_runtime (extraer_documentos sumario_ejemplo) None)) =
      [''otros'']" by simp
    with b show False by simp
  qed
  from a b c show ?thesis by blast
qed

lemma clasificar_por_tema_miembros:
  assumes "list_all doc_completo docs"
  shows "\<exists>c. clasificar_por_tema rt docs filtro = Inr c \<and>
           (\<forall>k v. (k, v) \<in> set c \<longleftrightarrow>
              (k \<in> set orden_categorias \<and> v = bucket rt filtro docs k \<and> v \<noteq> []))"
  unfolding clasificar_por_tema_buckets [OF assms] by auto

lemma buscar_tema_primero:
  "list_all (\<lambda>(t', kws'). \<not> coincide kws' h) pre \<Longrightarrow> coincide kws h \<Longrightarrow>
   buscar_tema (pre @ (t, kws) # post) h = Some t"
  by (induction pre) auto

lemma coincide_set: "set kws = set kws' \<Longrightarrow> coincide kws h = coincide kws' h"
  by (simp add: coincide_def list_ex_iff)

lemma buscar_tema_keyword_order:
  "list_all2 (\<lambda>a b. fst a = fst b \<and> set (snd a) = set (snd b)) ta tb \<Longrightarrow>
   buscar_tema ta h = buscar_tema tb h"
proof (induction ta tb rule: list_all2_induct)
  case Nil
  then show ?case by simp
next
  case (Cons a as b bs)
  then show ?case using coincide_set [of "snd a" "snd b" h]
    by (cases a; cases b) auto
qed

lemma list_all2_filter_keys:
  "list_all2 (\<lambda>a b. fst a = fst b \<and> set (snd a) = set (snd b)) ta tb \<Longrightarrow>
   list_all2 (\<lambda>a b. fst a = fst b \<and> set (snd a) = set (snd b))
     (filter (\<lambda>(k, v). P k) ta) (filter (\<lambda>(k, v). P k) tb)"
  by (induction ta tb rule: list_all2_induct) (auto simp: split_def)

lemma temas_activos_keyword_order:
  "list_all2 (\<lambda>a b. fst a = fst b \<and> set (snd a) = set (snd b)) ta tb \<Longrightarrow>
   list_all2 (\<lambda>a b. fst a = fst b \<and> set (snd a) = set (snd b))
     (temas_activos ta filtro) (temas_activos tb filtro)"
  by (auto simp: temas_activos_def list_all2_filter_keys split: option.splits)

lemma clasificacion_inicial_keys:
  "list_all2 (\<lambda>a b. fst a = fst b \<and> set (snd a) = set (snd b)) ta tb \<Longrightarrow>
   clasificacion_inicial ta = clasificacion_inicial tb"
proof -
  assume a: "list_all2 (\<lambda>a b. fst a = fst b \<and> set (snd a) = set (snd b)) ta tb"
  then have "map (\<lambda>(tema, kws). (tema, [] :: pydict list)) ta =
             map (\<lambda>(tema, kws). (tema, [])) tb"
    by (induction ta tb rule: list_all2_induct) (auto simp: split_def)
  then show ?thesis by (simp add: clasificacion_inicial_def)
qed

lemma clasificar_docs_cong:
  "(\<And>d. asignar rt a d = asignar rt b d) \<Longrightarrow>
   clasificar_docs rt a docs c = clasificar_docs rt b docs c"
  by (induction docs arbitrary: c) (auto split: sum.splits)

lemma clasificar_keyword_order:
  assumes "list_all2 (\<lambda>a b. fst a = fst b \<and> set (snd a) = set (snd b)) ta tb"
  shows "clasificar rt ta docs filtro = clasificar rt tb docs filtro"
proof -
  have "asignar rt (temas_activos ta filtro) d = asignar rt (temas_activos tb filtro) d" for d
    using buscar_tema_keyword_order [OF temas_activos_keyword_order [OF assms, of filtro]]
    by (simp add: asignar_def split: sum.splits)
  then have "clasificar_docs rt (temas_activos ta filtro) docs c =
             clasificar_docs rt (temas_activos tb filtro) docs c" for c
    by (rule clasificar_docs_cong)
  then show ?thesis
    by (simp add: clasificar_def clasificacion_inicial_keys [OF assms])
qed

lemma temas_activos_filtra:
  "temas_activos tabla filtro = filter (\<lambda>(k, v). tema_activo filtro k) tabla"
  by (auto simp: temas_activos_def tema_activo_def split: option.splits)

lemma buscar_tema_activo_primero:
  "list_all (\<lambda>(t', kws'). \<not> (P t' \<and> coincide kws' h)) pre \<Longrightarrow> P t \<Longrightarrow> coincide kws h \<Longrightarrow>
   buscar_tema (filter (\<lambda>(k, v). P k) (pre @ (t, kws) # post)) h = Some t"
  by (induction pre) auto

text \<open>
  C8. A document whose haystack has keywords of several active topics goes to the one that
  comes first in the declaration order of the table: if \<open>t\<close> is an active topic of
  \<^verbatim>\<open>TEMAS_BOE\<close> with a keyword in the haystack and no active topic declared before it has one,
  the document is in the bucket \<open>t\<close> and in no other, whatever the topics declared after it
  match. The result does not depend on the order of the keywords in a list: a table with the
  same topics in the same order and the same keywords per topic classifies every list the
  same way.
\<close>

theorem first_topic_in_table_order_wins:
  "(list_all doc_completo docs \<and> d \<in> set docs \<and> texto_busqueda rt d = Inr h \<and>
    TEMAS_BOE = pre @ (t, kws) # post \<and> tema_activo filtro t \<and> coincide kws h \<and>
    list_all (\<lambda>(t', kws'). \<not> (tema_activo filtro t' \<and> coincide kws' h)) pre \<longrightarrow>
      (\<exists>c. clasificar_por_tema rt docs filtro = Inr c \<and>
           (\<exists>v. (t, v) \<in> set c \<and> d \<in> set v) \<and>
           (\<forall>kv \<in> set c. d \<in> set (snd kv) \<longrightarrow> fst kv = t))) \<and>
   (list_all2 (\<lambda>a b. fst a = fst b \<and> set (snd a) = set (snd b)) tabla TEMAS_BOE \<longrightarrow>
      clasificar rt tabla docs filtro = clasificar_por_tema rt docs filtro)"
proof (intro conjI impI)
  assume a: "list_all doc_completo docs \<and> d \<in> set docs \<and> texto_busqueda rt d = Inr h \<and>
    TEMAS_BOE = pre @ (t, kws) # post \<and> tema_activo filtro t \<and> coincide kws h \<and>
    list_all (\<lambda>(t', kws'). \<not> (tema_activo filtro t' \<and> coincide kws' h)) pre"
  then have "buscar_tema (filter (\<lambda>(k, v). tema_activo filtro k) (pre @ (t, kws) # post)) h = Some t"
    using buscar_tema_activo_primero [of "tema_activo filtro" h pre t kws post] by blast
  with a have "buscar_tema (temas_activos TEMAS_BOE filtro) h = Some t"
    by (simp add: temas_activos_filtra)
  with a have t: "asignar rt (temas_activos TEMAS_BOE filtro) d = Inr t"
    by (simp add: asignar_def)
  from a obtain c where c: "clasificar_por_tema rt docs filtro = Inr c"
    and mem: "\<And>k v. (k, v) \<in> set c \<longleftrightarrow>
              (k \<in> set orden_categorias \<and> v = bucket rt filtro docs k \<and> v \<noteq> [])"
    using clasificar_por_tema_miembros [of docs rt filtro] by blast
  from a t have din: "d \<in> set (bucket rt filtro docs t)" by (simp add: bucket_def)
  then have "(t, bucket rt filtro docs t) \<in> set c"
    using asignar_in_orden [OF t] by (auto simp: mem)
  with din have one: "\<exists>v. (t, v) \<in> set c \<and> d \<in> set v" by blast
  have only: "\<forall>kv \<in> set c. d \<in> set (snd kv) \<longrightarrow> fst kv = t"
  proof (intro ballI impI)
    fix kv assume "kv \<in> set c" and dk: "d \<in> set (snd kv)"
    then have "snd kv = bucket rt filtro docs (fst kv)" using mem [of "fst kv" "snd kv"] by simp
    with dk have "asignar rt (temas_activos TEMAS_BOE filtro) d = Inr (fst kv)"
      by (simp add: bucket_def)
    with t show "fst kv = t" by simp
  qed
  from c one only
  show "\<exists>c. clasificar_por_tema rt docs filtro = Inr c \<and>
           (\<exists>v. (t, v) \<in> set c \<and> d \<in> set v) \<and>
           (\<forall>kv \<in> set c. d \<in> set (snd kv) \<longrightarrow> fst kv = t)"
    by blast
next
  assume "list_all2 (\<lambda>a b. fst a = fst b \<and> set (snd a) = set (snd b)) tabla TEMAS_BOE"
  then show "clasificar rt tabla docs filtro = clasificar_por_tema rt docs filtro"
    unfolding clasificar_por_tema_def by (rule clasificar_keyword_order)
qed

theorem first_topic_in_table_order_wins_witness:
  "(\<exists>c. clasificar_por_tema ascii_runtime [doc_dos_temas] (Some [''vivienda'', ''empleo'']) = Inr c \<and>
        (\<exists>v. (''empleo'', v) \<in> set c \<and> doc_dos_temas \<in> set v)) \<and>
   coincide (snd (TEMAS_BOE ! 1)) ''contrato de alquiler de vivienda  '' \<and>
   coincide (snd (TEMAS_BOE ! 6)) ''contrato de alquiler de vivienda  '' \<and>
   tema_activo (Some [''vivienda'', ''empleo'']) (fst (TEMAS_BOE ! 6)) \<and>
   clasificar ascii_runtime (map (\<lambda>(k, kws). (k, rev kws)) TEMAS_BOE) [doc_dos_temas]
     (Some [''vivienda'', ''empleo'']) =
   clasificar_por_tema ascii_runtime [doc_dos_temas] (Some [''vivienda'', ''empleo''])"
proof -
  let ?h = "''contrato de alquiler de vivienda  ''"
  let ?f = "Some [''vivienda'', ''empleo'']"
  have ok: "list_all doc_completo [doc_dos_temas]"
    by (simp add: doc_dos_temas_def doc_digest_completo)
  have h: "texto_busqueda ascii_runtime doc_dos_temas = Inr ?h" by code_simp
  have tab: "TEMAS_BOE = take 1 TEMAS_BOE @ (''empleo'', snd (TEMAS_BOE ! 1)) # drop 2 TEMAS_BOE"
    by (simp add: TEMAS_BOE_def)
  have act: "tema_activo ?f ''empleo''" by (simp add: tema_activo_def)
  have act6: "tema_activo ?f (fst (TEMAS_BOE ! 6))" by (simp add: tema_activo_def TEMAS_BOE_def)
  have pre: "list_all (\<lambda>(t', kws'). \<not> (tema_activo ?f t' \<and> coincide kws' ?h)) (take 1 TEMAS_BOE)"
    by code_simp
  have m1: "coincide (snd (TEMAS_BOE ! 1)) ?h" by code_simp
  have m6: "coincide (snd (TEMAS_BOE ! 6)) ?h" by code_simp
  have perm: "list_all2 (\<lambda>a b. fst a = fst b \<and> set (snd a) = set (snd b))
        (map (\<lambda>(k, kws). (k, rev kws)) TEMAS_BOE) TEMAS_BOE"
    by (simp add: list_all2_map1 list_all2_same split_def)
  have "(\<exists>c. clasificar_por_tema ascii_runtime [doc_dos_temas] ?f = Inr c \<and>
           (\<exists>v. (''empleo'', v) \<in> set c \<and> doc_dos_temas \<in> set v) \<and>
           (\<forall>kv \<in> set c. doc_dos_temas \<in> set (snd kv) \<longrightarrow> fst kv = ''empleo'')) \<and>
        clasificar ascii_runtime (map (\<lambda>(k, kws). (k, rev kws)) TEMAS_BOE) [doc_dos_temas] ?f =
        clasificar_por_tema ascii_runtime [doc_dos_temas] ?f"
    using first_topic_in_table_order_wins [where docs = "[doc_dos_temas]" and d = doc_dos_temas
        and rt = ascii_runtime and h = ?h and filtro = ?f and pre = "take 1 TEMAS_BOE"
        and t = "''empleo''" and kws = "snd (TEMAS_BOE ! 1)" and post = "drop 2 TEMAS_BOE"
        and tabla = "map (\<lambda>(k, kws). (k, rev kws)) TEMAS_BOE"]
      ok h tab act pre m1 perm
    by simp
  with m1 m6 act6 show ?thesis by blast
qed

lemma html_documento_ok:
  assumes "tiene_titulo doc"
  shows "html_documento rt doc = Inr (projr (html_documento rt doc))"
proof -
  from assms obtain v where "dict_index doc ''titulo'' = Inr v"
    using dict_index_present [of "''titulo''" doc] by (auto simp: tiene_titulo_def)
  then show ?thesis by (simp add: html_documento_def)
qed

lemma render_docs_eq:
  "list_all tiene_titulo docs \<Longrightarrow>
   render_docs rt docs html = Inr (html @ concat (map (\<lambda>d. projr (html_documento rt d)) docs))"
proof (induction docs arbitrary: html)
  case Nil
  then show ?case by simp
next
  case (Cons d docs)
  then obtain s where s: "html_documento rt d = Inr s"
    using html_documento_ok [of d rt] by auto
  from Cons have "list_all tiene_titulo docs" by simp
  from Cons.IH [OF this, of "html @ s"] s show ?case by simp
qed

lemma render_temas_eq:
  "list_all (\<lambda>(tema, docs). list_all tiene_titulo (take 10 docs)) c \<Longrightarrow>
   render_temas rt c html =
     Inr (html @
          concat (map (\<lambda>(tema, docs).
                         html_tema rt tema (length docs) @
                         concat (map (\<lambda>d. projr (html_documento rt d)) (take 10 docs)) @
                         (if 10 < length docs then html_nota (length docs - 10) else []) @
                         tema_cierre)
                      (filter (\<lambda>(tema, docs). docs \<noteq> []) c)))"
proof (induction rt c html rule: render_temas.induct)
  case (1 rt html)
  then show ?case by simp
next
  case (2 rt tema documentos resto html)
  from "2.prems" have rest: "list_all (\<lambda>(tema, docs). list_all tiene_titulo (take 10 docs)) resto"
    and here: "list_all tiene_titulo (take 10 documentos)"
    by simp_all
  show ?case
  proof (cases "documentos = []")
    case True
    with "2.IH"(1) [OF True rest] show ?thesis by simp
  next
    case False
    let ?h = "html @ html_tema rt tema (length documentos)"
    let ?es = "concat (map (\<lambda>d. projr (html_documento rt d)) (take 10 documentos))"
    let ?n = "if 10 < length documentos then html_nota (length documentos - 10) else []"
    have rd: "render_docs rt (take 10 documentos) ?h = Inr (?h @ ?es)"
      by (rule render_docs_eq [OF here])
    have step: "render_temas rt ((tema, documentos) # resto) html =
                render_temas rt resto (?h @ ?es @ ?n @ tema_cierre)"
      using False rd by simp
    have "render_temas rt resto
           ((if 10 < length documentos then (?h @ ?es) @ html_nota (length documentos - 10)
             else ?h @ ?es) @ tema_cierre) =
          Inr (((if 10 < length documentos then (?h @ ?es) @ html_nota (length documentos - 10)
             else ?h @ ?es) @ tema_cierre) @
          concat (map (\<lambda>(tema, docs).
                         html_tema rt tema (length docs) @
                         concat (map (\<lambda>d. projr (html_documento rt d)) (take 10 docs)) @
                         (if 10 < length docs then html_nota (length docs - 10) else []) @
                         tema_cierre)
                      (filter (\<lambda>(tema, docs). docs \<noteq> []) resto)))"
      by (rule "2.IH"(2) [OF False rd rest])
    then have "render_temas rt resto (?h @ ?es @ ?n @ tema_cierre) =
          Inr ((?h @ ?es @ ?n @ tema_cierre) @
          concat (map (\<lambda>(tema, docs).
                         html_tema rt tema (length docs) @
                         concat (map (\<lambda>d. projr (html_documento rt d)) (take 10 docs)) @
                         (if 10 < length docs then html_nota (length docs - 10) else []) @
                         tema_cierre)
                      (filter (\<lambda>(tema, docs). docs \<noteq> []) resto)))"
      by (cases "10 < length documentos") simp_all
    with step False show ?thesis by simp
  qed
qed






lemma doc_completo_titulo: "doc_completo d \<Longrightarrow> tiene_titulo d"
  by (simp add: doc_completo_def tiene_titulo_def)

lemma clasificar_por_tema_Inr_completo:
  "clasificar_por_tema rt docs filtro = Inr c \<Longrightarrow> list_all doc_completo docs"
  using clasificar_por_tema_incompleto [of docs rt filtro] by auto

lemma filter_keys_present:
  "distinct ks \<Longrightarrow>
   filter (\<lambda>k. k \<in> set (filter (\<lambda>k. g k \<noteq> []) ks)) ks = filter (\<lambda>k. g k \<noteq> []) ks"
  by (rule filter_cong) auto

lemma filter_buckets_map:
  "filter (\<lambda>(k, v). v \<noteq> []) (map (\<lambda>k. (k, g k)) ks) =
   map (\<lambda>k. (k, g k)) (filter (\<lambda>k. g k \<noteq> []) ks)"
  by (induction ks) auto

text \<open>
  C10. The buckets of a classification come in a fixed order, whatever the documents and their
  order: the topics of the table in declaration order, then \<^verbatim>\<open>otros\<close>, each present exactly
  when a document was assigned to it; the same documents in another order give the same
  bucket names in the same order. The sections of the page rendered from the classification
  come in that same order, one per bucket.
\<close>

theorem buckets_in_table_order:
  "clasificar_por_tema rt docs filtro = Inr c \<longrightarrow>
     map fst c = filter (\<lambda>k. k \<in> set (map fst c)) (map fst TEMAS_BOE @ [''otros'']) \<and>
     map fst c = filter (\<lambda>k. bucket rt filtro docs k \<noteq> []) (map fst TEMAS_BOE @ [''otros'']) \<and>
     c = map (\<lambda>k. (k, bucket rt filtro docs k)) (map fst c) \<and>
     (strptime rt fecha = Some fecha_obj \<longrightarrow>
        generar_resumen_html rt fecha c =
          Inr (cabecera_inicio @ strftime rt ''%d de %B de %Y'' fecha_obj @ cabecera_fin @
               html_contador (sum_list (map (\<lambda>(tema, docs). length docs) c)) @
               concat (map (\<lambda>(tema, docs).
                              html_tema rt tema (length docs) @
                              concat (map (\<lambda>d. projr (html_documento rt d)) (take 10 docs)) @
                              (if 10 < length docs then html_nota (length docs - 10) else []) @
                              tema_cierre) c) @
               pie)) \<and>
     (mset docs' = mset docs \<and> clasificar_por_tema rt docs' filtro = Inr c' \<longrightarrow>
        map fst c' = map fst c)"
proof (intro impI)
  assume r: "clasificar_por_tema rt docs filtro = Inr c"
  then have ok: "list_all doc_completo docs" by (rule clasificar_por_tema_Inr_completo)
  have o: "orden_categorias = map fst TEMAS_BOE @ [''otros'']" by (simp add: orden_categorias_def)
  from r clasificar_por_tema_buckets [OF ok, of rt filtro]
  have c: "c = filter (\<lambda>(k, v). v \<noteq> []) (map (\<lambda>k. (k, bucket rt filtro docs k)) orden_categorias)"
    by simp
  have keys: "map fst c = filter (\<lambda>k. bucket rt filtro docs k \<noteq> []) orden_categorias"
    unfolding c by (rule keys_filter_buckets)
  have k1: "map fst c = filter (\<lambda>k. k \<in> set (map fst c)) orden_categorias"
    unfolding keys
    by (rule filter_keys_present [OF distinct_orden_categorias, symmetric])
  have c2: "c = map (\<lambda>k. (k, bucket rt filtro docs k)) (map fst c)"
    unfolding keys unfolding c by (rule filter_buckets_map)
  have ne: "filter (\<lambda>(tema, docs). docs \<noteq> []) c = c"
    unfolding c by simp
  have sub: "set v \<subseteq> set docs" if "(k, v) \<in> set c" for k v
    using that unfolding c by (auto simp: bucket_def)
  have tt: "list_all (\<lambda>(tema, ds). list_all tiene_titulo (take 10 ds)) c"
  proof -
    have "tiene_titulo d" if "(k, v) \<in> set c" "d \<in> set (take 10 v)" for k v d
    proof -
      from that(2) have "d \<in> set v" by (rule in_set_takeD)
      with sub [OF that(1)] ok have "doc_completo d" by (auto simp: list_all_iff)
      then show ?thesis by (rule doc_completo_titulo)
    qed
    then show ?thesis by (auto simp: list_all_iff)
  qed
  have page: "generar_resumen_html rt fecha c =
          Inr (cabecera_inicio @ strftime rt ''%d de %B de %Y'' fecha_obj @ cabecera_fin @
               html_contador (sum_list (map (\<lambda>(tema, docs). length docs) c)) @
               concat (map (\<lambda>(tema, docs).
                              html_tema rt tema (length docs) @
                              concat (map (\<lambda>d. projr (html_documento rt d)) (take 10 docs)) @
                              (if 10 < length docs then html_nota (length docs - 10) else []) @
                              tema_cierre) c) @
               pie)"
    if f: "strptime rt fecha = Some fecha_obj"
    using f render_temas_eq [OF tt, of rt "cabecera_inicio @ strftime rt ''%d de %B de %Y'' fecha_obj @ cabecera_fin @
                   html_contador (total_docs c)"]
    by (simp add: generar_resumen_html_def total_docs_def ne)
  have perm: "map fst c' = map fst c"
    if p: "mset docs' = mset docs \<and> clasificar_por_tema rt docs' filtro = Inr c'"
  proof -
    from p have ok': "list_all doc_completo docs'" using clasificar_por_tema_Inr_completo by blast
    from p clasificar_por_tema_buckets [OF ok', of rt filtro]
    have "c' = filter (\<lambda>(k, v). v \<noteq> [])
                 (map (\<lambda>k. (k, bucket rt filtro docs' k)) orden_categorias)"
      by simp
    then have "map fst c' = filter (\<lambda>k. bucket rt filtro docs' k \<noteq> []) orden_categorias"
      by (simp add: keys_filter_buckets)
    moreover from p have "set docs' = set docs" using mset_eq_setD by blast
    then have "(bucket rt filtro docs' k \<noteq> []) = (bucket rt filtro docs k \<noteq> [])" for k
      by (simp add: bucket_def filter_empty_conv)
    ultimately show ?thesis by (simp add: keys)
  qed
  from k1 keys c2 page o perm
  show "map fst c = filter (\<lambda>k. k \<in> set (map fst c)) (map fst TEMAS_BOE @ [''otros'']) \<and>
     map fst c = filter (\<lambda>k. bucket rt filtro docs k \<noteq> []) (map fst TEMAS_BOE @ [''otros'']) \<and>
     c = map (\<lambda>k. (k, bucket rt filtro docs k)) (map fst c) \<and>
     (strptime rt fecha = Some fecha_obj \<longrightarrow>
        generar_resumen_html rt fecha c =
          Inr (cabecera_inicio @ strftime rt ''%d de %B de %Y'' fecha_obj @ cabecera_fin @
               html_contador (sum_list (map (\<lambda>(tema, docs). length docs) c)) @
               concat (map (\<lambda>(tema, docs).
                              html_tema rt tema (length docs) @
                              concat (map (\<lambda>d. projr (html_documento rt d)) (take 10 docs)) @
                              (if 10 < length docs then html_nota (length docs - 10) else []) @
                              tema_cierre) c) @
               pie)) \<and>
     (mset docs' = mset docs \<and> clasificar_por_tema rt docs' filtro = Inr c' \<longrightarrow>
        map fst c' = map fst c)"
    by simp
qed

theorem buckets_in_table_order_witness:
  "clasificar_por_tema ascii_runtime (rev (extraer_documentos sumario_ejemplo)) None =
     Inr [(''empleo'', [extraer_documentos sumario_ejemplo ! 0]),
          (''vivienda'', [extraer_documentos sumario_ejemplo ! 1])] \<and>
   map fst [(''empleo'', [extraer_documentos sumario_ejemplo ! 0]),
            (''vivienda'', [extraer_documentos sumario_ejemplo ! 1])] =
     filter (\<lambda>k. k = ''empleo'' \<or> k = ''vivienda'') (map fst TEMAS_BOE @ [''otros'']) \<and>
   generar_resumen_html ascii_runtime ''20240101''
       [(''empleo'', [extraer_documentos sumario_ejemplo ! 0]),
        (''vivienda'', [extraer_documentos sumario_ejemplo ! 1])] =
     Inr (cabecera_inicio @ ''01 de January de 2024'' @ cabecera_fin @ html_contador 2 @
          (html_tema ascii_runtime ''empleo'' 1 @
           projr (html_documento ascii_runtime (extraer_documentos sumario_ejemplo ! 0)) @
           tema_cierre) @
          (html_tema ascii_runtime ''vivienda'' 1 @
           projr (html_documento ascii_runtime (extraer_documentos sumario_ejemplo ! 1)) @
           tema_cierre) @
          pie) \<and>
   map fst (projr (clasificar_por_tema ascii_runtime (extraer_documentos sumario_ejemplo) None)) =
     [''empleo'', ''vivienda'']"
proof -
  let ?c = "[(''empleo'', [extraer_documentos sumario_ejemplo ! 0]),
            (''vivienda'', [extraer_documentos sumario_ejemplo ! 1])]"
  have r: "clasificar_por_tema ascii_runtime (rev (extraer_documentos sumario_ejemplo)) None = Inr ?c"
    by code_simp
  have r': "clasificar_por_tema ascii_runtime (extraer_documentos sumario_ejemplo) None = Inr ?c"
    by code_simp
  have f: "strptime ascii_runtime ''20240101'' = Some (2024, 1, 1)"
    by (simp add: ascii_runtime_def)
  have m: "mset (extraer_documentos sumario_ejemplo) = mset (rev (extraer_documentos sumario_ejemplo))"
    by simp
  note th = buckets_in_table_order [of ascii_runtime "rev (extraer_documentos sumario_ejemplo)" None ?c
        "''20240101''" "(2024, 1, 1)" "extraer_documentos sumario_ejemplo" ?c, THEN mp, OF r]
  note page = th [THEN conjunct2, THEN conjunct2, THEN conjunct2, THEN conjunct1, THEN mp, OF f]
  have k: "map fst ?c = filter (\<lambda>k. k = ''empleo'' \<or> k = ''vivienda'') (map fst TEMAS_BOE @ [''otros''])"
    using th [THEN conjunct1] by simp
  have p: "map fst ?c = map fst ?c"
    using th [THEN conjunct2, THEN conjunct2, THEN conjunct2, THEN conjunct2] m r' by blast
  have sf: "strftime ascii_runtime ''%d de %B de %Y'' fecha_obj = ''01 de January de 2024''"
    for fecha_obj
    by (simp add: ascii_runtime_def)
  from r r' k page show ?thesis by (simp add: numeral_2_eq_2 sf)
qed

lemma url_sumario_literal:
  "url_sumario fecha = ''https://boe.es/datosabiertos/api/boe/sumario/'' @ fecha"
  by (simp add: url_sumario_def BOE_BASE_def)

text \<open>
  C6. When the request for the summary raises, \<^verbatim>\<open>generar_digest_completo\<close> returns the dict
  with the single entry \<^verbatim>\<open>error\<close> holding the exception's type name and text, for every date
  (also one that would not parse), filter and email request. The only effect of the run is the
  request: nothing is handed to the mail transport. The result has no \<^verbatim>\<open>html\<close> entry.
\<close>

theorem fetch_failure_short_circuits:
  "http_get env (''https://boe.es/datosabiertos/api/boe/sumario/'' @ fecha) = Excepcion tipo mensaje \<longrightarrow>
     generar_digest_completo env rt fecha temas_filtro enviar_por_email destinatario config_email =
       (Inr (JObj [(''error'', JStr (tipo @ '': '' @ mensaje))]),
        [Peticion (''https://boe.es/datosabiertos/api/boe/sumario/'' @ fecha)]) \<and>
     ''html'' \<notin> set (dict_keys [(''error'', JStr (tipo @ '': '' @ mensaje))])"
  by (simp add: generar_digest_completo_def obtener_sumario_boe_def url_sumario_literal
      dict_keys_def)

theorem fetch_failure_short_circuits_witness:
  "generar_digest_completo entorno_sin_red ascii_runtime ''20240101'' None True (Some ''a@b.c'')
       (Some config_ejemplo) =
     (Inr (JObj [(''error'', JStr ''ConnectionError: sin red'')]),
      [Peticion ''https://boe.es/datosabiertos/api/boe/sumario/20240101''])"
  using fetch_failure_short_circuits [of entorno_sin_red "''20240101''" "''ConnectionError''"
      "''sin red''" ascii_runtime None True "Some ''a@b.c''" "Some config_ejemplo"]
  by (simp add: entorno_sin_red_def)

text \<open>
  C9. When the request succeeds and the decoded body is an object with the key \<^verbatim>\<open>error\<close>,
  \<^verbatim>\<open>generar_digest_completo\<close> returns that object as it is, as it does for a failed request:
  nothing is extracted, classified or rendered, and no mail is sent.
\<close>

theorem error_key_in_body_is_returned:
  "http_get env (''https://boe.es/datosabiertos/api/boe/sumario/'' @ fecha) = Respuesta (JObj obj) \<and>
   ''error'' \<in> set (map fst obj) \<longrightarrow>
     generar_digest_completo env rt fecha temas_filtro enviar_por_email destinatario config_email =
       (Inr (JObj obj), [Peticion (''https://boe.es/datosabiertos/api/boe/sumario/'' @ fecha)])"
  by (simp add: generar_digest_completo_def obtener_sumario_boe_def url_sumario_literal
      dict_keys_def)

theorem error_key_in_body_is_returned_witness:
  "generar_digest_completo
       \<lparr> http_get = (\<lambda>url. Respuesta (JObj [(''error'', JStr ''mantenimiento''),
                                             (''resultados'', sumario_ejemplo)])),
         smtp_enviar = (\<lambda>m. None) \<rparr>
       ascii_runtime ''20240101'' None True (Some ''a@b.c'') (Some config_ejemplo) =
     (Inr (JObj [(''error'', JStr ''mantenimiento''), (''resultados'', sumario_ejemplo)]),
      [Peticion ''https://boe.es/datosabiertos/api/boe/sumario/20240101'']) \<and>
   length (extraer_documentos
     (JObj [(''error'', JStr ''mantenimiento''), (''resultados'', sumario_ejemplo)])) = 2"
proof -
  have n: "length (extraer_documentos
     (JObj [(''error'', JStr ''mantenimiento''), (''resultados'', sumario_ejemplo)])) = 2"
    by code_simp
  show ?thesis
    using error_key_in_body_is_returned [of
        "\<lparr> http_get = (\<lambda>url. Respuesta (JObj [(''error'', JStr ''mantenimiento''),
                                             (''resultados'', sumario_ejemplo)])),
           smtp_enviar = (\<lambda>m. None) \<rparr>"
        "''20240101''" "[(''error'', JStr ''mantenimiento''), (''resultados'', sumario_ejemplo)]"
        ascii_runtime None True "Some ''a@b.c''" "Some config_ejemplo"] n
    by simp
qed

end
